theory Spec2Isabelle
  imports Complex_Main
begin

section \<open>JavaScript numbers\<close>

text \<open>
  The Timeline of \<^verbatim>\<open>src/timeline.ts\<close> computes with JavaScript numbers. They are
  modelled as the reals extended by the two infinities and NaN: the values an IEEE
  double can take, with rounding, overflow and the sign of zero left out. The operators
  below follow ECMAScript on these values: NaN is contagious, every comparison with NaN
  is false, and \<^verbatim>\<open>Math.max\<close> returns NaN as soon as one argument is NaN.
\<close>

datatype jsnum = Fin real | PInf | NInf | NaN

instantiation jsnum :: "{plus, minus, times, ord}"
begin

fun plus_jsnum :: "jsnum \<Rightarrow> jsnum \<Rightarrow> jsnum" where
  "plus_jsnum (Fin a) (Fin b) = Fin (a + b)"
| "plus_jsnum NaN _ = NaN"
| "plus_jsnum _ NaN = NaN"
| "plus_jsnum PInf NInf = NaN"
| "plus_jsnum NInf PInf = NaN"
| "plus_jsnum PInf _ = PInf"
| "plus_jsnum _ PInf = PInf"
| "plus_jsnum NInf _ = NInf"
| "plus_jsnum _ NInf = NInf"

fun minus_jsnum :: "jsnum \<Rightarrow> jsnum \<Rightarrow> jsnum" where
  "minus_jsnum (Fin a) (Fin b) = Fin (a - b)"
| "minus_jsnum NaN _ = NaN"
| "minus_jsnum _ NaN = NaN"
| "minus_jsnum PInf PInf = NaN"
| "minus_jsnum NInf NInf = NaN"
| "minus_jsnum PInf _ = PInf"
| "minus_jsnum _ PInf = NInf"
| "minus_jsnum NInf _ = NInf"
| "minus_jsnum _ NInf = PInf"

fun less_jsnum :: "jsnum \<Rightarrow> jsnum \<Rightarrow> bool" where
  "less_jsnum (Fin a) (Fin b) = (a < b)"
| "less_jsnum NaN _ = False"
| "less_jsnum _ NaN = False"
| "less_jsnum PInf _ = False"
| "less_jsnum _ NInf = False"
| "less_jsnum _ PInf = True"
| "less_jsnum NInf _ = True"

definition less_eq_jsnum :: "jsnum \<Rightarrow> jsnum \<Rightarrow> bool" where
  "less_eq_jsnum a b = (a < b \<or> (a = b \<and> a \<noteq> NaN))"

fun times_jsnum :: "jsnum \<Rightarrow> jsnum \<Rightarrow> jsnum" where
  "times_jsnum (Fin a) (Fin b) = Fin (a * b)"
| "times_jsnum NaN _ = NaN"
| "times_jsnum _ NaN = NaN"
| "times_jsnum PInf y =
     (if Fin 0 < y then PInf else if y < Fin 0 then NInf else NaN)"
| "times_jsnum NInf y =
     (if Fin 0 < y then NInf else if y < Fin 0 then PInf else NaN)"
| "times_jsnum x PInf =
     (if Fin 0 < x then PInf else if x < Fin 0 then NInf else NaN)"
| "times_jsnum x NInf =
     (if Fin 0 < x then NInf else if x < Fin 0 then PInf else NaN)"

instance ..

end

text \<open>\<^verbatim>\<open>a / b\<close>. A zero divisor is taken as \<open>+0\<close>.\<close>

fun js_div :: "jsnum \<Rightarrow> jsnum \<Rightarrow> jsnum" where
  "js_div (Fin a) (Fin b) =
     (if b = 0 then (if a = 0 then NaN else if 0 < a then PInf else NInf) else Fin (a / b))"
| "js_div NaN _ = NaN"
| "js_div _ NaN = NaN"
| "js_div (Fin a) _ = Fin 0"
| "js_div PInf (Fin b) = (if 0 \<le> b then PInf else NInf)"
| "js_div NInf (Fin b) = (if 0 \<le> b then NInf else PInf)"
| "js_div _ _ = NaN"

definition trunc :: "real \<Rightarrow> int" where
  "trunc r = (if 0 \<le> r then \<lfloor>r\<rfloor> else \<lceil>r\<rceil>)"

text \<open>\<^verbatim>\<open>a % b\<close>: the remainder of the truncated division, with the sign of \<open>a\<close>.\<close>

fun js_rem :: "jsnum \<Rightarrow> jsnum \<Rightarrow> jsnum" where
  "js_rem (Fin a) (Fin b) = (if b = 0 then NaN else Fin (a - b * of_int (trunc (a / b))))"
| "js_rem NaN _ = NaN"
| "js_rem _ NaN = NaN"
| "js_rem (Fin a) _ = Fin a"
| "js_rem _ _ = NaN"

text \<open>\<^verbatim>\<open>Math.floor\<close> and \<^verbatim>\<open>Math.max\<close> (two arguments).\<close>

fun js_floor :: "jsnum \<Rightarrow> jsnum" where
  "js_floor (Fin a) = Fin (of_int \<lfloor>a\<rfloor>)"
| "js_floor x = x"

definition js_max :: "jsnum \<Rightarrow> jsnum \<Rightarrow> jsnum" where
  "js_max a b = (if a = NaN \<or> b = NaN then NaN else if a < b then b else a)"

text \<open>Truthiness of a number: \<open>0\<close> and NaN are falsy. \<^verbatim>\<open>x || 0\<close> on a number.\<close>

definition truthy :: "jsnum \<Rightarrow> bool" where
  "truthy x = (x \<noteq> Fin 0 \<and> x \<noteq> NaN)"

definition or0 :: "jsnum \<Rightarrow> jsnum" where
  "or0 x = (if truthy x then x else Fin 0)"

section \<open>Strings to numbers\<close>

text \<open>
  Strings are lists of ASCII characters. \<open>js_Number\<close> and \<open>parseFloat\<close> are the
  ECMAScript built-ins \<^verbatim>\<open>Number(string)\<close> and \<^verbatim>\<open>parseFloat(string)\<close>: white space is
  trimmed, a decimal literal has an optional sign, digits, an optional fraction and an
  optional exponent, or is \<^verbatim>\<open>Infinity\<close>; \<open>js_Number\<close> wants the whole string to be a
  literal (the empty string is 0, and the prefixes 0x, 0o and 0b are read), while
  \<open>parseFloat\<close> reads the longest prefix that is a decimal literal.
\<close>

definition isDigit :: "char \<Rightarrow> bool" where
  "isDigit c = (c \<in> set ''0123456789'')"

definition isWhite :: "char \<Rightarrow> bool" where
  "isWhite c = (of_char c \<in> {9, 10, 11, 12, 13, 32 :: nat})"

definition digitVal :: "char \<Rightarrow> nat" where
  "digitVal c =
     (if isDigit c then of_char c - 48
      else if c \<in> set ''abcdef'' then of_char c - 87
      else of_char c - 55)"

definition radixValue :: "nat \<Rightarrow> string \<Rightarrow> nat" where
  "radixValue r ds = foldl (\<lambda>n c. r * n + digitVal c) 0 ds"

definition isRadixDigit :: "nat \<Rightarrow> char \<Rightarrow> bool" where
  "isRadixDigit r c =
     ((isDigit c \<or> c \<in> set ''abcdefABCDEF'') \<and> digitVal c < r)"

definition trimStart :: "string \<Rightarrow> string" where
  "trimStart s = dropWhile isWhite s"

definition trim :: "string \<Rightarrow> string" where
  "trim s = rev (dropWhile isWhite (rev (dropWhile isWhite s)))"

text \<open>
  The exponent part of a decimal literal at the head of \<open>s\<close>: the power of ten and the
  rest of the string. Without digits after the \<^verbatim>\<open>e\<close> there is no exponent part.
\<close>

definition scanExponent :: "string \<Rightarrow> real \<times> string" where
  "scanExponent s =
     (case s of
        [] \<Rightarrow> (1, s)
      | c # r \<Rightarrow>
          if c = CHR ''e'' \<or> c = CHR ''E'' then
            (let neg = (r \<noteq> [] \<and> hd r = CHR ''-'');
                 r' = (if r \<noteq> [] \<and> (hd r = CHR ''-'' \<or> hd r = CHR ''+'') then tl r else r);
                 ds = takeWhile isDigit r'
             in if ds = [] then (1, s)
                else if neg then (1 / 10 ^ radixValue 10 ds, dropWhile isDigit r')
                else (10 ^ radixValue 10 ds, dropWhile isDigit r'))
          else (1, s))"

text \<open>An unsigned decimal literal at the head of \<open>s\<close>: its value and the rest.\<close>

definition scanUnsigned :: "string \<Rightarrow> (real \<times> string) option" where
  "scanUnsigned s =
     (let d1 = takeWhile isDigit s; r1 = dropWhile isDigit s in
      case r1 of
        c # r2 \<Rightarrow>
          if c = CHR ''.'' then
            (let d2 = takeWhile isDigit r2; r3 = dropWhile isDigit r2 in
             if d1 = [] \<and> d2 = [] then None
             else (let (e, r4) = scanExponent r3
                   in Some (real (radixValue 10 (d1 @ d2)) / 10 ^ length d2 * e, r4)))
          else if d1 = [] then None
          else (let (e, r4) = scanExponent r1 in Some (real (radixValue 10 d1) * e, r4))
      | [] \<Rightarrow> if d1 = [] then None else Some (real (radixValue 10 d1), []))"

definition scanInfinity :: "string \<Rightarrow> string option" where
  "scanInfinity s = (if take 8 s = ''Infinity'' then Some (drop 8 s) else None)"

text \<open>A signed decimal literal (\<^verbatim>\<open>StrDecimalLiteral\<close>) at the head of \<open>s\<close>.\<close>

definition scanDecimal :: "string \<Rightarrow> (jsnum \<times> string) option" where
  "scanDecimal s =
     (let neg = (s \<noteq> [] \<and> hd s = CHR ''-'');
          u = (if s \<noteq> [] \<and> (hd s = CHR ''-'' \<or> hd s = CHR ''+'') then tl s else s)
      in case scanInfinity u of
           Some r \<Rightarrow> Some (if neg then NInf else PInf, r)
         | None \<Rightarrow>
            (case scanUnsigned u of
               None \<Rightarrow> None
             | Some (v, r) \<Rightarrow> Some (Fin (if neg then - v else v), r)))"

definition parseFloat :: "string \<Rightarrow> jsnum" where
  "parseFloat s = (case scanDecimal (trimStart s) of None \<Rightarrow> NaN | Some (v, r) \<Rightarrow> v)"

definition nonDecimal :: "string \<Rightarrow> jsnum option" where
  "nonDecimal t =
     (let p = take 2 t; ds = drop 2 t;
          r = (if p = ''0x'' \<or> p = ''0X'' then 16
               else if p = ''0o'' \<or> p = ''0O'' then 8
               else if p = ''0b'' \<or> p = ''0B'' then 2 else (0::nat))
      in if r = 0 then None
         else if ds \<noteq> [] \<and> list_all (isRadixDigit r) ds then Some (Fin (real (radixValue r ds)))
         else Some NaN)"

definition js_Number :: "string \<Rightarrow> jsnum" where
  "js_Number s =
     (let t = trim s in
      if t = [] then Fin 0
      else case nonDecimal t of
        Some v \<Rightarrow> v
      | None \<Rightarrow> (case scanDecimal t of Some (v, []) \<Rightarrow> v | _ \<Rightarrow> NaN))"

section \<open>The regular expressions of the source\<close>

text \<open>
  \<^verbatim>\<open>\d*\.?\d+\<close> at the head of \<open>s\<close>, as a backtracking matcher finds it: the matched
  text and the rest. The digits before the point are taken greedily; the point is taken
  only when a digit follows it.
\<close>

definition matchDigits :: "string \<Rightarrow> (string \<times> string) option" where
  "matchDigits s =
     (let d1 = takeWhile isDigit s; r1 = dropWhile isDigit s;
          d2 = (if r1 \<noteq> [] \<and> hd r1 = CHR ''.'' then takeWhile isDigit (tl r1) else [])
      in if d2 \<noteq> [] then Some (d1 @ ''.'' @ d2, dropWhile isDigit (tl r1))
         else if d1 \<noteq> [] then Some (d1, r1)
         else None)"

text \<open>
  \<^verbatim>\<open>position.match(/^([<>])([=]?)([-+]?\d*\.?\d+)/)\<close> of \<open>add\<close>: the three groups, or
  \<open>None\<close> for \<^verbatim>\<open>null\<close>. The expression is anchored at the start only.
\<close>

definition positionMatch :: "string \<Rightarrow> (char \<times> string \<times> string) option" where
  "positionMatch s =
     (case s of
        [] \<Rightarrow> None
      | c # r \<Rightarrow>
          if c = CHR ''<'' \<or> c = CHR ''>'' then
            (let g2 = (if r \<noteq> [] \<and> hd r = CHR ''='' then ''='' else []);
                 r2 = drop (length g2) r;
                 sg = (if r2 \<noteq> [] \<and> (hd r2 = CHR ''-'' \<or> hd r2 = CHR ''+'') then [hd r2] else [])
             in case matchDigits (drop (length sg) r2) of
                  None \<Rightarrow> None
                | Some (m, rest) \<Rightarrow> Some (c, g2, sg @ m))
          else None)"

text \<open>
  \<^verbatim>\<open>propertyValue.match(/^([+-]=)([-]?\d*\.?\d+)$/)\<close> of \<open>to\<close>: the two groups. The
  expression is anchored at both ends.
\<close>

definition propertyMatch :: "string \<Rightarrow> (string \<times> string) option" where
  "propertyMatch s =
     (let g1 = take 2 s; r = drop 2 s;
          sg = (if r \<noteq> [] \<and> hd r = CHR ''-'' then ''-'' else [])
      in if g1 = ''+='' \<or> g1 = ''-='' then
           (case matchDigits (drop (length sg) r) of
              Some (m, []) \<Rightarrow> Some (g1, sg @ m)
            | _ \<Rightarrow> None)
         else None)"

section \<open>The Timeline of src/timeline.ts\<close>

subsection \<open>Data\<close>

text \<open>
  A position is \<^verbatim>\<open>number | string | undefined\<close>, both as the argument of \<open>add\<close>,
  \<open>to\<close>, \<open>addLabel\<close> and \<open>play\<close> and as the field an entry stores. At run time the
  field can also hold a value that is none of these: \<open>PObject s\<close> is the member named
  \<open>s\<close> of \<^verbatim>\<open>Object.prototype\<close> (a function or an object), which a lookup in
  \<^verbatim>\<open>labels\<close> can return.
\<close>

datatype pos = PUndefined | PNum jsnum | PStr string | PObject string

datatype direction = Forward | Backward

text \<open>
  Callbacks act on the world outside the timeline, of type \<open>'w\<close>; they do not call
  back into the timeline. \<^verbatim>\<open>AnimationOptions\<close>: an absent field is \<open>None\<close>.
\<close>

type_synonym easingfn = "jsnum \<Rightarrow> jsnum \<Rightarrow> jsnum \<Rightarrow> jsnum \<Rightarrow> jsnum"

record 'w AnimationOptions =
  duration :: "jsnum option"
  easing :: "easingfn option"
  endValue :: "jsnum option"
  onChange :: "(jsnum \<Rightarrow> 'w \<Rightarrow> 'w) option"
  onComplete :: "('w \<Rightarrow> 'w) option"
  startValue :: "jsnum option"

text \<open>
  An element of \<^verbatim>\<open>animations\<close>. The field \<^verbatim>\<open>animationFunction\<close> is stored and never
  read, and is left out.
\<close>

record 'w animation =
  options :: "'w AnimationOptions"
  position :: pos

text \<open>
  The fields of the class. \<^verbatim>\<open>this.duration\<close> is \<open>tl_duration\<close> (the name \<open>duration\<close>
  is the options' field). \<^verbatim>\<open>labels\<close> holds the own keys of the object, a map from
  names to times; a read \<^verbatim>\<open>this.labels[name]\<close> is \<open>labelsGet\<close> below, which also finds
  what the object inherits from its prototype.
\<close>

record 'w Timeline =
  animations :: "'w animation list"
  labels :: "string \<rightharpoonup> jsnum"
  currentTime :: jsnum
  tl_duration :: jsnum
  isPlayingInternal :: bool
  playDirection :: direction
  startTime :: "jsnum option"
  isPausedInternal :: bool
  repeat :: jsnum
  repeatDelay :: jsnum
  repeatCount :: jsnum
  shouldYoyo :: bool
  onCompleteCallback :: "('w \<Rightarrow> 'w) option"
  onUpdateCallback :: "('w \<Rightarrow> 'w) option"
  onRepeatCallback :: "('w \<Rightarrow> 'w) option"
  onReverseCompleteCallback :: "('w \<Rightarrow> 'w) option"
  animationFrameId :: "nat option"

text \<open>The argument of the constructor.\<close>

record 'w TimelineOptions =
  opt_onComplete :: "('w \<Rightarrow> 'w) option"
  opt_onUpdate :: "('w \<Rightarrow> 'w) option"
  opt_onRepeat :: "('w \<Rightarrow> 'w) option"
  opt_onReverseComplete :: "('w \<Rightarrow> 'w) option"
  opt_repeat :: "jsnum option"
  opt_repeatDelay :: "jsnum option"
  opt_yoyo :: "bool option"

subsection \<open>Small helpers for the operators of the source\<close>

text \<open>\<^verbatim>\<open>d || 0\<close> and \<^verbatim>\<open>d ?? 0\<close> on an optional number.\<close>

definition orZero :: "jsnum option \<Rightarrow> jsnum" where
  "orZero d = (case d of None \<Rightarrow> Fin 0 | Some x \<Rightarrow> or0 x)"

definition nullishZero :: "jsnum option \<Rightarrow> jsnum" where
  "nullishZero d = (case d of None \<Rightarrow> Fin 0 | Some x \<Rightarrow> x)"

text \<open>\<^verbatim>\<open>cb && cb()\<close> and \<^verbatim>\<open>cb && cb(x)\<close>.\<close>

definition call0 :: "('w \<Rightarrow> 'w) option \<Rightarrow> 'w \<Rightarrow> 'w" where
  "call0 cb w = (case cb of None \<Rightarrow> w | Some f \<Rightarrow> f w)"

definition call1 :: "(jsnum \<Rightarrow> 'w \<Rightarrow> 'w) option \<Rightarrow> jsnum \<Rightarrow> 'w \<Rightarrow> 'w" where
  "call1 cb x w = (case cb of None \<Rightarrow> w | Some f \<Rightarrow> f x w)"

subsection \<open>Constructor, add, addLabel, calculateDuration\<close>

definition yoyo_set :: "bool \<Rightarrow> 'w Timeline \<Rightarrow> 'w Timeline" where
  "yoyo_set v t = t\<lparr>shouldYoyo := v\<rparr>"

definition yoyo_get :: "'w Timeline \<Rightarrow> bool" where
  "yoyo_get t = shouldYoyo t"

definition new_Timeline :: "'w TimelineOptions \<Rightarrow> 'w Timeline" where
  "new_Timeline opts =
     yoyo_set (case opt_yoyo opts of None \<Rightarrow> False | Some b \<Rightarrow> b)
       \<lparr>animations = [], labels = Map.empty, currentTime = Fin 0, tl_duration = Fin 0,
        isPlayingInternal = False, playDirection = Forward, startTime = None,
        isPausedInternal = False,
        repeat = nullishZero (opt_repeat opts),
        repeatDelay = nullishZero (opt_repeatDelay opts),
        repeatCount = Fin 0, shouldYoyo = False,
        onCompleteCallback = opt_onComplete opts,
        onUpdateCallback = opt_onUpdate opts,
        onRepeatCallback = opt_onRepeat opts,
        onReverseCompleteCallback = opt_onReverseComplete opts,
        animationFrameId = None\<rparr>"

text \<open>The body of the loop of \<open>calculateDuration\<close>, and the loop.\<close>

definition durationStep :: "'w animation \<Rightarrow> jsnum \<Rightarrow> jsnum" where
  "durationStep animation calculatedDuration =
     (let animDuration = orZero (duration (options animation));
          insertPosition = (case position animation of
                              PNum n \<Rightarrow> n
                            | _ \<Rightarrow> calculatedDuration)
      in js_max calculatedDuration (insertPosition + animDuration))"

definition calculateDuration :: "'w Timeline \<Rightarrow> 'w Timeline" where
  "calculateDuration t = t\<lparr>tl_duration := fold durationStep (animations t) (Fin 0)\<rparr>"

text \<open>
  \<^verbatim>\<open>labels\<close> is created as \<^verbatim>\<open>{}\<close>, so a read \<^verbatim>\<open>this.labels[name]\<close> of a name that is
  not an own key goes to \<^verbatim>\<open>Object.prototype\<close>. Its members, after ECMAScript, are listed
  in \<open>objectPrototypeNames\<close>; all of them are functions or objects, and so truthy, not
  \<^verbatim>\<open>undefined\<close> and not of type number.
\<close>

definition objectPrototypeNames :: "string list" where
  "objectPrototypeNames =
     [''constructor'', ''hasOwnProperty'', ''isPrototypeOf'', ''propertyIsEnumerable'',
      ''toLocaleString'', ''toString'', ''valueOf'', ''__proto__'',
      ''__defineGetter__'', ''__defineSetter__'', ''__lookupGetter__'',
      ''__lookupSetter__'']"

datatype labelval = LUndefined | LNum jsnum | LInherited

definition labelsGet :: "(string \<rightharpoonup> jsnum) \<Rightarrow> string \<Rightarrow> labelval" where
  "labelsGet lbls name =
     (case lbls name of
        Some v \<Rightarrow> LNum v
      | None \<Rightarrow> if name \<in> set objectPrototypeNames then LInherited else LUndefined)"

text \<open>
  The chain of conditions of \<open>add\<close> that computes \<^verbatim>\<open>resolvedPosition\<close>, from the start
  and duration of the previous entry, \<^verbatim>\<open>this.duration\<close>, the labels and the argument.
  \<^verbatim>\<open>this.labels[position]\<close> is tested for truthiness, and stored when truthy.
\<close>

definition resolvedPosition :: "jsnum \<Rightarrow> jsnum \<Rightarrow> jsnum \<Rightarrow> (string \<rightharpoonup> jsnum) \<Rightarrow> pos \<Rightarrow> pos" where
  "resolvedPosition previousAnimationStartTime previousAnimationDuration dur lbls pos0 =
     (if pos0 = PUndefined \<or> pos0 = PStr ''>'' then
        PNum (previousAnimationStartTime + previousAnimationDuration)
      else if pos0 = PStr ''<'' then PNum previousAnimationStartTime
      else case pos0 of
        PStr s \<Rightarrow>
          (case positionMatch s of
             Some (prefix, hasEquals, g3) \<Rightarrow>
               (let timeValue = js_Number g3 in
                if prefix = CHR ''<'' then
                  PNum (previousAnimationStartTime + timeValue * Fin 1000)
                else if prefix = CHR ''>'' then
                  PNum (previousAnimationStartTime + previousAnimationDuration
                        + timeValue * Fin 1000)
                else PUndefined)
           | None \<Rightarrow>
               if (take 1 s = ''+'' \<or> take 1 s = ''-'') \<and> CHR ''='' \<in> set s then
                 (let operator = take 2 s;
                      relativeTime = js_Number (drop 2 s)
                  in if operator = ''+='' then PNum (dur + relativeTime * Fin 1000)
                     else if operator = ''-='' then
                       PNum (js_max (Fin 0) (dur + relativeTime * Fin 1000))
                     else PUndefined)
               else (case labelsGet lbls s of
                       LNum v \<Rightarrow> if truthy v then PNum v else PUndefined
                     | LInherited \<Rightarrow> PObject s
                     | LUndefined \<Rightarrow> PUndefined))
      | PNum n \<Rightarrow> PNum (n * Fin 1000)
      | _ \<Rightarrow> PUndefined)"

definition add :: "'w AnimationOptions \<Rightarrow> pos \<Rightarrow> 'w Timeline \<Rightarrow> 'w Timeline" where
  "add opts pos0 t =
     (let previousAnimation =
            (if animations t = [] then None else Some (last (animations t)));
          previousAnimationStartTime =
            (case previousAnimation of
               None \<Rightarrow> Fin 0
             | Some p \<Rightarrow> (case position p of PNum n \<Rightarrow> n | _ \<Rightarrow> Fin 0));
          previousAnimationDuration =
            (case previousAnimation of
               None \<Rightarrow> Fin 0
             | Some p \<Rightarrow> nullishZero (duration (options p)));
          rp = resolvedPosition previousAnimationStartTime previousAnimationDuration
                 (tl_duration t) (labels t) pos0
      in calculateDuration
           (t\<lparr>animations := animations t @ [\<lparr>options = opts, position = rp\<rparr>]\<rparr>))"

text \<open>
  \<^verbatim>\<open>this.labels[label] = v\<close> makes \<open>label\<close> an own key, except for \<^verbatim>\<open>__proto__\<close>:
  that name is an inherited setter, which ignores a number.
\<close>

definition labelsSet :: "(string \<rightharpoonup> jsnum) \<Rightarrow> string \<Rightarrow> jsnum \<Rightarrow> (string \<rightharpoonup> jsnum)" where
  "labelsSet lbls name v = (if name = ''__proto__'' then lbls else lbls(name \<mapsto> v))"

definition addLabel :: "string \<Rightarrow> pos \<Rightarrow> 'w Timeline \<Rightarrow> 'w Timeline" where
  "addLabel label pos0 t =
     (case pos0 of
        PNum n \<Rightarrow> t\<lparr>labels := labelsSet (labels t) label (n * Fin 1000)\<rparr>
      | _ \<Rightarrow> t\<lparr>labels := labelsSet (labels t) label (tl_duration t)\<rparr>)"

subsection \<open>pause, play, reverse\<close>

text \<open>
  \<^verbatim>\<open>performance.now()\<close> and the handle that \<^verbatim>\<open>requestAnimFrame\<close> returns come from
  the host: they are the arguments \<open>now\<close> and \<open>fid\<close>. In \<open>play\<close>, a label name that
  is found in the prototype puts a function into \<^verbatim>\<open>currentTime\<close>; every later read of
  the field is a comparison or a subtraction, which take it as NaN, and NaN is what
  the model stores.
\<close>

definition isPaused :: "'w Timeline \<Rightarrow> bool" where
  "isPaused t = isPausedInternal t"

definition isPlaying :: "'w Timeline \<Rightarrow> bool" where
  "isPlaying t = isPlayingInternal t"

definition pause :: "'w Timeline \<Rightarrow> 'w Timeline" where
  "pause t =
     (let tl1 = t\<lparr>isPlayingInternal := False, isPausedInternal := True\<rparr>
      in if animationFrameId tl1 \<noteq> None then tl1\<lparr>animationFrameId := None\<rparr> else tl1)"

definition play :: "pos \<Rightarrow> jsnum \<Rightarrow> nat \<Rightarrow> 'w Timeline \<Rightarrow> 'w Timeline" where
  "play from now fid t =
     (if isPlaying t then t
      else
        (let tl1 = t\<lparr>isPlayingInternal := True, isPausedInternal := False,
                       playDirection := Forward\<rparr>;
             tl2 =
               (if from = PUndefined then
                  (let tl1a = (if \<not> isPlaying tl1 \<and> tl_duration tl1 \<le> currentTime tl1
                               then tl1\<lparr>currentTime := Fin 0\<rparr> else tl1)
                   in tl1a\<lparr>startTime := Some (now - currentTime tl1a)\<rparr>)
                else
                  (let tl1b = tl1\<lparr>startTime := None, repeatCount := Fin 0\<rparr>
                   in case from of
                        PNum n \<Rightarrow> tl1b\<lparr>currentTime := n * Fin 1000\<rparr>
                      | PStr s \<Rightarrow>
                          (case labelsGet (labels tl1b) s of
                             LNum v \<Rightarrow> tl1b\<lparr>currentTime := v\<rparr>
                           | LInherited \<Rightarrow> tl1b\<lparr>currentTime := NaN\<rparr>
                           | LUndefined \<Rightarrow> tl1b\<lparr>currentTime := Fin 0\<rparr>)
                      | _ \<Rightarrow> tl1b\<lparr>currentTime := Fin 0\<rparr>))
         in tl2\<lparr>animationFrameId := Some fid\<rparr>))"

definition reverse :: "jsnum \<Rightarrow> nat \<Rightarrow> 'w Timeline \<Rightarrow> 'w Timeline" where
  "reverse now fid t =
     (let tl1 = t\<lparr>playDirection := Backward\<rparr> in
      if \<not> isPlaying tl1 then
        (let tl2 = tl1\<lparr>isPlayingInternal := True, isPausedInternal := False\<rparr>;
             tl3 = (if tl_duration tl2 \<le> currentTime tl2
                    then tl2\<lparr>currentTime := tl_duration tl2\<rparr> else tl2);
             tl4 = tl3\<lparr>startTime := Some (now - (tl_duration tl3 - currentTime tl3))\<rparr>
         in tl4\<lparr>animationFrameId := Some fid\<rparr>)
      else tl1\<lparr>startTime := Some (now - (tl_duration tl1 - currentTime tl1))\<rparr>)"

subsection \<open>The frame loop\<close>

text \<open>
  \<open>calculateCurrentTime\<close>. \<^verbatim>\<open>this.startTime!\<close> is a number when \<open>runAnimations\<close>
  calls it; \<^verbatim>\<open>time - null\<close> would be \<^verbatim>\<open>time - 0\<close>.
\<close>

definition calculateCurrentTime :: "jsnum \<Rightarrow> 'w Timeline \<Rightarrow> 'w Timeline" where
  "calculateCurrentTime time t =
     (let elapsedTime = time - nullishZero (startTime t);
          currentEffectiveTime =
            (if repeat t \<noteq> Fin 0 then
               (let cycleDuration = tl_duration t + repeatDelay t * Fin 1000;
                    cycleTime = js_rem elapsedTime cycleDuration;
                    cycleNumber = js_floor (js_div elapsedTime cycleDuration)
                in if shouldYoyo t \<and> js_rem cycleNumber (Fin 2) = Fin 1
                   then cycleDuration - cycleTime else cycleTime)
             else elapsedTime)
      in t\<lparr>currentTime :=
             (if playDirection t = Forward then currentEffectiveTime
              else js_max (Fin 0) (tl_duration t - currentEffectiveTime))\<rparr>)"

definition resolveAnimationStartTime :: "'w animation \<Rightarrow> jsnum" where
  "resolveAnimationStartTime animation =
     (case position animation of PNum n \<Rightarrow> n | _ \<Rightarrow> Fin 0)"

text \<open>The body of the loop of \<open>processAnimations\<close> at playhead \<open>ct\<close>, and the loop.\<close>

definition processAnimation :: "jsnum \<Rightarrow> 'w animation \<Rightarrow> 'w \<Rightarrow> 'w" where
  "processAnimation ct animation w =
     (let animationStart = resolveAnimationStartTime animation;
          animationEnd = animationStart + orZero (duration (options animation))
      in if animationStart \<le> ct \<and> ct \<le> animationEnd then
           (let animationElapsedTime = js_max (Fin 0) (ct - animationStart)
            in call1 (onChange (options animation)) animationElapsedTime w)
         else w)"

definition processAnimations :: "'w Timeline \<Rightarrow> 'w \<Rightarrow> 'w" where
  "processAnimations t w = fold (processAnimation (currentTime t)) (animations t) w"

definition handleTimelineUpdate :: "'w Timeline \<Rightarrow> 'w \<Rightarrow> 'w" where
  "handleTimelineUpdate t w = call0 (onUpdateCallback t) w"

definition shouldRepeat :: "'w Timeline \<Rightarrow> bool" where
  "shouldRepeat t = (repeatCount t < repeat t \<or> repeat t = Fin (- 1))"

definition handleRepeatForward ::
  "jsnum \<Rightarrow> jsnum \<Rightarrow> 'w Timeline \<times> 'w \<Rightarrow> 'w Timeline \<times> 'w" where
  "handleRepeatForward time totalDuration s =
     (case s of (t, w) \<Rightarrow>
        (let t1 = t\<lparr>repeatCount := repeatCount t + Fin 1\<rparr>;
             t2 = (if shouldYoyo t1 then t1\<lparr>playDirection := Backward\<rparr> else t1);
             w1 = call0 (onRepeatCallback t2) w
         in (t2\<lparr>startTime := Some (time - (currentTime t2 - totalDuration))\<rparr>, w1)))"

definition handleRepeatBackward :: "jsnum \<Rightarrow> 'w Timeline \<times> 'w \<Rightarrow> 'w Timeline \<times> 'w" where
  "handleRepeatBackward time s =
     (case s of (t, w) \<Rightarrow>
        (let t1 = t\<lparr>repeatCount := repeatCount t + Fin 1\<rparr>;
             t2 = t1\<lparr>playDirection := Forward\<rparr>;
             w1 = call0 (onRepeatCallback t2) w
         in (t2\<lparr>startTime := Some (time + currentTime t2)\<rparr>, w1)))"

definition handleTimelineCompletion ::
  "jsnum \<Rightarrow> 'w Timeline \<times> 'w \<Rightarrow> 'w Timeline \<times> 'w" where
  "handleTimelineCompletion time s =
     (case s of (t, w) \<Rightarrow>
        if playDirection t = Forward then
          (let totalDuration = tl_duration t + repeatDelay t * Fin 1000 in
           if totalDuration \<le> currentTime t then
             (if shouldRepeat t then handleRepeatForward time totalDuration (t, w)
              else (pause t, call0 (onCompleteCallback t) w))
           else (t, w))
        else
          (if currentTime t \<le> Fin 0 then
             (if shouldRepeat t then handleRepeatBackward time (t, w)
              else (pause t, call0 (onReverseCompleteCallback t) w))
           else (t, w)))"

definition requestNextFrame :: "nat \<Rightarrow> 'w Timeline \<Rightarrow> 'w Timeline" where
  "requestNextFrame fid t = (if isPlaying t then t\<lparr>animationFrameId := Some fid\<rparr> else t)"

text \<open>\<^verbatim>\<open>!this.startTime\<close> holds for \<^verbatim>\<open>null\<close>, 0 and NaN.\<close>

definition runAnimations ::
  "jsnum \<Rightarrow> nat \<Rightarrow> 'w Timeline \<times> 'w \<Rightarrow> 'w Timeline \<times> 'w" where
  "runAnimations time fid s =
     (case s of (t, w) \<Rightarrow>
        (let t1 = (if \<not> (case startTime t of None \<Rightarrow> False | Some x \<Rightarrow> truthy x)
                   then t\<lparr>startTime := Some time\<rparr> else t);
             t2 = calculateCurrentTime time t1;
             w1 = processAnimations t2 w;
             w2 = handleTimelineUpdate t2 w1;
             (t3, w3) = handleTimelineCompletion time (t2, w2)
         in (requestNextFrame fid t3, w3)))"

subsection \<open>seek and progress\<close>

text \<open>
  The start time that the loop of \<open>seek\<close> computes for an entry (\<^verbatim>\<open>animationStart\<close>,
  after the conversion of the branch \<^verbatim>\<open>typeof animation.position !== 'number'\<close>). A
  function found in the prototype becomes NaN in that multiplication.
\<close>

definition seekAnimationStart :: "(string \<rightharpoonup> jsnum) \<Rightarrow> 'w animation \<Rightarrow> jsnum" where
  "seekAnimationStart lbls animation =
     (let animationStart =
            (case position animation of
               PUndefined \<Rightarrow> Fin 0
             | PNum n \<Rightarrow> n
             | PStr s \<Rightarrow>
                 (case labelsGet lbls s of
                    LNum v \<Rightarrow> v
                  | LInherited \<Rightarrow> NaN
                  | LUndefined \<Rightarrow> Fin 0)
             | PObject s \<Rightarrow> Fin 0)
      in case position animation of
           PNum n \<Rightarrow> animationStart
         | _ \<Rightarrow> animationStart * Fin 1000)"

text \<open>The rest of the body of the loop of \<open>seek\<close>, and \<open>seek\<close>.\<close>

definition seekAnimation :: "(string \<rightharpoonup> jsnum) \<Rightarrow> jsnum \<Rightarrow> 'w animation \<Rightarrow> 'w \<Rightarrow> 'w" where
  "seekAnimation lbls ct animation w =
     (let animationStart = seekAnimationStart lbls animation;
          animationEnd = animationStart + nullishZero (duration (options animation))
      in if animationStart \<le> ct \<and> ct \<le> animationEnd then
           (let animElapsedTime = js_max (Fin 0) (ct - animationStart)
            in call1 (onChange (options animation)) animElapsedTime w)
         else if ct < animationStart then call1 (onChange (options animation)) (Fin 0) w
         else call1 (onChange (options animation))
                (nullishZero (duration (options animation))) w)"

definition seek :: "jsnum \<Rightarrow> 'w Timeline \<times> 'w \<Rightarrow> 'w Timeline \<times> 'w" where
  "seek time s =
     (case s of (t, w) \<Rightarrow>
        (let t1 = t\<lparr>currentTime := time * Fin 1000\<rparr>
         in (t1, fold (seekAnimation (labels t1) (currentTime t1)) (animations t1) w)))"

text \<open>
  \<open>progress\<close> also returns what it writes with \<^verbatim>\<open>console.warn\<close>.
\<close>

definition progress :: "jsnum \<Rightarrow> 'w Timeline \<times> 'w \<Rightarrow> string list \<times> 'w Timeline \<times> 'w" where
  "progress v s =
     (case s of (t, w) \<Rightarrow>
        if v < Fin 0 \<or> Fin 1 < v then
          ([''Progress value should be between 0 and 1''], t, w)
        else ([], seek (js_div (tl_duration t * v) (Fin 1000)) (t, w)))"

definition togglePlayPause :: "jsnum \<Rightarrow> nat \<Rightarrow> 'w Timeline \<Rightarrow> 'w Timeline" where
  "togglePlayPause now fid t =
     (if isPlaying t then pause t
      else if playDirection t = Forward then play PUndefined now fid t
      else reverse now fid t)"

subsection \<open>The tween builder to\<close>

text \<open>
  The values of the properties of a target and of the \<^verbatim>\<open>properties\<close> argument are
  numbers, strings or \<^verbatim>\<open>undefined\<close>. The world holds the targets, addressed by a
  number: their properties, whether they have a \<^verbatim>\<open>canvas\<close>, every call of
  \<^verbatim>\<open>set\<close> in order, and the count of calls of \<^verbatim>\<open>requestRenderAll\<close>.
\<close>

datatype jsval = VUndefined | VNum jsnum | VStr string

record world =
  props :: "nat \<Rightarrow> string \<Rightarrow> jsval"
  hasCanvas :: "nat \<Rightarrow> bool"
  setCalls :: "(nat \<times> string \<times> jsval) list"
  renderRequests :: nat

definition object_set :: "nat \<Rightarrow> string \<Rightarrow> jsval \<Rightarrow> world \<Rightarrow> world" where
  "object_set object key v w =
     w\<lparr>props := (props w)(object := (props w object)(key := v)),
       setCalls := setCalls w @ [(object, key, v)]\<rparr>"

definition requestRenderAll :: "nat \<Rightarrow> world \<Rightarrow> world" where
  "requestRenderAll object w =
     (if hasCanvas w object then w\<lparr>renderRequests := renderRequests w + 1\<rparr> else w)"

text \<open>
  \<^verbatim>\<open>startValues[key] + relativeValue\<close> and \<^verbatim>\<open>startValues[key] - relativeValue\<close>. The
  result is \<open>Some\<close> number, or \<open>None\<close> when it is not of type number (a string with a
  number appended is a string). An entry of \<^verbatim>\<open>endValues\<close> is kept in this form.
\<close>

definition val_plus :: "jsval \<Rightarrow> jsnum \<Rightarrow> jsnum option" where
  "val_plus v n =
     (case v of VNum a \<Rightarrow> Some (a + n) | VUndefined \<Rightarrow> Some NaN | VStr s \<Rightarrow> None)"

definition val_minus :: "jsval \<Rightarrow> jsnum \<Rightarrow> jsnum option" where
  "val_minus v n =
     (case v of
        VNum a \<Rightarrow> Some (a - n)
      | VUndefined \<Rightarrow> Some NaN
      | VStr s \<Rightarrow> Some (js_Number s - n))"

text \<open>The body of the first loop of \<open>to\<close>: the entry of \<^verbatim>\<open>endValues\<close> for one key.\<close>

definition endValueOf :: "jsval \<Rightarrow> jsval \<Rightarrow> jsnum option" where
  "endValueOf startVal propertyValue =
     (case propertyValue of
        VStr s \<Rightarrow>
          (case propertyMatch s of
             Some (operator, g2) \<Rightarrow>
               (let relativeValue = parseFloat g2 in
                if operator = ''+='' then val_plus startVal relativeValue
                else if operator = ''-='' then val_minus startVal relativeValue
                else None)
           | None \<Rightarrow> Some (parseFloat s))
      | VNum n \<Rightarrow> Some n
      | VUndefined \<Rightarrow> None)"

text \<open>The callback \<^verbatim>\<open>animationOptions.onChange\<close> that \<open>to\<close> builds.\<close>

definition to_onChangeKey ::
  "nat \<Rightarrow> (string \<times> jsval) list \<Rightarrow> easingfn \<Rightarrow> jsnum option \<Rightarrow> jsnum
    \<Rightarrow> string \<times> jsnum option \<Rightarrow> world \<Rightarrow> world" where
  "to_onChangeKey object startValues ease dur ct kv w =
     (case kv of (key, endVal) \<Rightarrow>
        (case (map_of startValues key, endVal) of
           (Some (VNum startVal), Some endV) \<Rightarrow>
             (let currentValue = ease ct startVal (endV - startVal) (orZero dur)
              in object_set object key (VNum currentValue) w)
         | _ \<Rightarrow> w))"

definition to_onChange ::
  "nat \<Rightarrow> (string \<times> jsval) list \<Rightarrow> (string \<times> jsnum option) list \<Rightarrow> easingfn
    \<Rightarrow> jsnum option \<Rightarrow> jsnum \<Rightarrow> world \<Rightarrow> world" where
  "to_onChange object startValues endValues ease dur ct w =
     requestRenderAll object
       (fold (to_onChangeKey object startValues ease dur ct) endValues w)"

text \<open>
  \<open>to\<close>. \<^verbatim>\<open>fabric.util.ease.defaultEasing\<close> belongs to the canvas library and is the
  parameter \<open>defaultEasing\<close>; \<open>properties\<close> lists the own keys of the argument in the
  order of enumeration; \<open>w\<close> is the world at the time of the call, from which the start
  values are read. The argument has no own key \<^verbatim>\<open>hasOwnProperty\<close>: with one, the call
  \<^verbatim>\<open>properties.hasOwnProperty(key)\<close> of the source throws before anything is added.
\<close>

definition to ::
  "easingfn \<Rightarrow> nat \<Rightarrow> (string \<times> jsval) list \<Rightarrow> jsnum \<Rightarrow> pos \<Rightarrow> easingfn option
    \<Rightarrow> world \<Rightarrow> world Timeline \<Rightarrow> world Timeline" where
  "to defaultEasing object properties dur pos0 easing0 w t =
     (let ease = (case easing0 of None \<Rightarrow> defaultEasing | Some e \<Rightarrow> e);
          d = dur * Fin 1000;
          startValues = map (\<lambda>(key, v). (key, props w object key)) properties;
          endValues =
            map (\<lambda>(key, v). (key, endValueOf (props w object key) v)) properties;
          animationOptions =
            \<lparr>duration = Some d, easing = Some ease, endValue = None,
             onChange = Some (to_onChange object startValues endValues ease (Some d)),
             onComplete = Some (\<lambda>w. w), startValue = None\<rparr>
      in add animationOptions pos0 t)"

subsection \<open>Calls of the public methods\<close>

text \<open>
  What a host can do with a timeline and its world: call a public method, deliver a
  frame to the loop (\<open>runAnimations\<close> with the time stamp and the handle of the next
  request), or change the world itself. \<open>run\<close> performs a list of calls in order.
\<close>

datatype call =
    To nat "(string \<times> jsval) list" jsnum pos "easingfn option"
  | AddLabel string pos
  | Play pos jsnum nat
  | Pause
  | Reverse jsnum nat
  | Seek jsnum
  | Progress jsnum
  | TogglePlayPause jsnum nat
  | Yoyo bool
  | Frame jsnum nat
  | Host "world \<Rightarrow> world"



text \<open>
  A chain of calls \<^verbatim>\<open>to(object, properties, seconds)\<close> without position, each with
  its target, its properties, its duration in seconds, its easing and the world at the
  time of the call.
\<close>

fun toChain ::
  "easingfn \<Rightarrow> (nat \<times> (string \<times> jsval) list \<times> real \<times> easingfn option \<times> world) list
    \<Rightarrow> world Timeline \<Rightarrow> world Timeline" where
  "toChain de [] t = t"
| "toChain de ((ob, ps, d, e, w) # cs) t =
     toChain de cs (to de ob ps (Fin d) PUndefined e w t)"

text \<open>The duration in seconds of a call of the chain.\<close>

definition seconds :: "nat \<times> (string \<times> jsval) list \<times> real \<times> easingfn option \<times> world \<Rightarrow> real" where
  "seconds c = (case c of (ob, ps, d, e, w) \<Rightarrow> d)"

text \<open>
  The end of the last entry as \<open>add\<close> computes it:
  \<^verbatim>\<open>previousAnimationStartTime + previousAnimationDuration\<close>.
\<close>

definition previousEnd :: "'w Timeline \<Rightarrow> jsnum" where
  "previousEnd t =
     (if animations t = [] then Fin 0
      else case position (last (animations t)) of PNum n \<Rightarrow> n | _ \<Rightarrow> Fin 0)
     + (if animations t = [] then Fin 0
        else nullishZero (duration (options (last (animations t)))))"

subsection \<open>Notions of the specification\<close>

text \<open>No entry of the timeline stores a string as its position.\<close>

definition positionIsString :: "pos \<Rightarrow> bool" where
  "positionIsString p = (case p of PStr s \<Rightarrow> True | _ \<Rightarrow> False)"

definition positionsResolved :: "'w Timeline \<Rightarrow> bool" where
  "positionsResolved t = list_all (\<lambda>a. \<not> positionIsString (position a)) (animations t)"



text \<open>
  What the frame loop and the loop of \<open>seek\<close> do, at the playhead \<open>ct\<close>, for an entry
  whose window starts at 0 and ends at the entry's duration.
\<close>

definition frameCallFromZero :: "jsnum \<Rightarrow> 'w animation \<Rightarrow> 'w \<Rightarrow> 'w" where
  "frameCallFromZero ct a w =
     (if Fin 0 \<le> ct \<and> ct \<le> orZero (duration (options a))
      then call1 (onChange (options a)) ct w else w)"

definition seekCallFromZero :: "jsnum \<Rightarrow> 'w animation \<Rightarrow> 'w \<Rightarrow> 'w" where
  "seekCallFromZero ct a w =
     (if Fin 0 \<le> ct \<and> ct \<le> nullishZero (duration (options a))
      then call1 (onChange (options a)) ct w
      else if ct < Fin 0 then call1 (onChange (options a)) (Fin 0) w
      else call1 (onChange (options a)) (nullishZero (duration (options a))) w)"

text \<open>
  The timeline as a frame at \<open>time\<close> sees it: \<^verbatim>\<open>startTime\<close> set if it was falsy, and
  the playhead computed by \<open>calculateCurrentTime\<close>.
\<close>

definition frameTimeline :: "jsnum \<Rightarrow> 'w Timeline \<Rightarrow> 'w Timeline" where
  "frameTimeline time t =
     calculateCurrentTime time
       (if \<not> (case startTime t of None \<Rightarrow> False | Some x \<Rightarrow> truthy x)
        then t\<lparr>startTime := Some time\<rparr> else t)"

text \<open>
  The argument that the specification gives to an entry's \<open>onChange\<close> on a seek to
  the playhead \<open>ct\<close>: 0 before the entry's window, the time since the entry's start
  inside it, the entry's duration after it. The start of an entry is the one the frame
  loop uses, \<open>resolveAnimationStartTime\<close>.
\<close>

definition seekArgument :: "jsnum \<Rightarrow> 'w animation \<Rightarrow> jsnum" where
  "seekArgument ct a =
     (let start = resolveAnimationStartTime a;
          d = nullishZero (duration (options a))
      in if ct < start then Fin 0
         else if ct \<le> start + d then ct - start
         else d)"

text \<open>
  The folding rule of the specification for repeat and yoyo, with \<^verbatim>\<open>%\<close> as the
  remainder and the parity test \<^verbatim>\<open>floor(elapsed / cycleDuration) % 2 === 1\<close>.
\<close>

definition foldedPlayhead :: "jsnum \<Rightarrow> jsnum \<Rightarrow> jsnum \<Rightarrow> bool \<Rightarrow> direction \<Rightarrow> jsnum" where
  "foldedPlayhead elapsed dur delay yoyo dir =
     (let cycleDuration = dur + delay * Fin 1000;
          cycleTime = js_rem elapsed cycleDuration;
          folded = (if yoyo \<and> js_rem (js_floor (js_div elapsed cycleDuration)) (Fin 2) = Fin 1
                    then cycleDuration - cycleTime else cycleTime)
      in if dir = Forward then folded else js_max (Fin 0) (dur - folded))"

text \<open>The elapsed time without folding, as a playhead in the direction of play.\<close>

definition unfoldedPlayhead :: "jsnum \<Rightarrow> jsnum \<Rightarrow> direction \<Rightarrow> jsnum" where
  "unfoldedPlayhead elapsed dur dir =
     (if dir = Forward then elapsed else js_max (Fin 0) (dur - elapsed))"

subsection \<open>Values for the examples\<close>

text \<open>
  A linear easing, a world with one target (number 0) whose \<^verbatim>\<open>left\<close> is 10 and
  \<^verbatim>\<open>top\<close> is 20, and the empty options of the constructor.
\<close>

definition linearEasing :: easingfn where
  "linearEasing t b c d = b + js_div t d * c"

definition exampleWorld :: world where
  "exampleWorld =
     \<lparr>props = (\<lambda>ob key. if ob = 0 \<and> key = ''left'' then VNum (Fin 10)
                         else if ob = 0 \<and> key = ''top'' then VNum (Fin 20)
                         else VUndefined),
      hasCanvas = (\<lambda>ob. False), setCalls = [], renderRequests = 0\<rparr>"

definition noOptions :: "'w TimelineOptions" where
  "noOptions =
     \<lparr>opt_onComplete = None, opt_onUpdate = None, opt_onRepeat = None,
      opt_onReverseComplete = None, opt_repeat = None, opt_repeatDelay = None,
      opt_yoyo = None\<rparr>"

text \<open>
  The example of the specification:
  \<^verbatim>\<open>tl.to(obj, {left: 100}, 1).to(obj, {top: 50}, 1)\<close> on a new timeline.
\<close>

definition exampleTimeline :: "world Timeline" where
  "exampleTimeline =
     to linearEasing 0 [(''top'', VNum (Fin 50))] (Fin 1) PUndefined None exampleWorld
       (to linearEasing 0 [(''left'', VNum (Fin 100))] (Fin 1) PUndefined None exampleWorld
          (new_Timeline noOptions))"

text \<open>A timeline of one tween of one second that repeats for ever, with yoyo.\<close>

definition yoyoTimeline :: "world Timeline" where
  "yoyoTimeline =
     to linearEasing 0 [(''left'', VNum (Fin 100))] (Fin 1) PUndefined None exampleWorld
       (new_Timeline (noOptions\<lparr>opt_repeat := Some (Fin (- 1)), opt_yoyo := Some True\<rparr>))"

text \<open>
  The example timeline with a third tween of one second, added at the name of a label
  that does not exist: its position stays \<^verbatim>\<open>undefined\<close>.
\<close>

definition unresolvedTimeline :: "world Timeline" where
  "unresolvedTimeline =
     to linearEasing 0 [(''left'', VNum (Fin 0))] (Fin 1) (PStr ''nolabel'') None
       exampleWorld exampleTimeline"

section \<open>Basic facts\<close>

lemma Fin_le [simp]: "(Fin a \<le> Fin b) = (a \<le> b)"
  by (auto simp: less_eq_jsnum_def)

lemma js_max_Fin [simp]: "js_max (Fin a) (Fin b) = Fin (max a b)"
  by (simp add: js_max_def max_def)

lemma js_Number_half: "js_Number ''0.5'' = Fin (1 / 2)"
  by (simp add: js_Number_def trim_def isWhite_def nonDecimal_def scanDecimal_def
      scanInfinity_def scanUnsigned_def scanExponent_def isDigit_def radixValue_def
      digitVal_def)

lemma new_Timeline_simps:
  "animations (new_Timeline opts) = []"
  "tl_duration (new_Timeline opts) = Fin 0"
  "labels (new_Timeline opts) = Map.empty"
  "currentTime (new_Timeline opts) = Fin 0"
  "isPlayingInternal (new_Timeline opts) = False"
  by (simp_all add: new_Timeline_def yoyo_set_def)

lemma animations_add:
  "animations (add opts p t) =
     animations t @ [\<lparr>options = opts, position =
        resolvedPosition
          (if animations t = [] then Fin 0
           else case position (last (animations t)) of PNum n \<Rightarrow> n | _ \<Rightarrow> Fin 0)
          (if animations t = [] then Fin 0
           else nullishZero (duration (options (last (animations t)))))
          (tl_duration t) (labels t) p\<rparr>]"
  by (simp add: add_def calculateDuration_def Let_def)

lemma tl_duration_add:
  "tl_duration (add opts p t) = fold durationStep (animations (add opts p t)) (Fin 0)"
  by (simp add: add_def calculateDuration_def Let_def)

lemma labels_add: "labels (add opts p t) = labels t"
  by (simp add: add_def calculateDuration_def Let_def)

lemma to_add:
  "to defaultEasing object properties dur p easing0 w t =
     add \<lparr>duration = Some (dur * Fin 1000),
          easing = Some (case easing0 of None \<Rightarrow> defaultEasing | Some e \<Rightarrow> e),
          endValue = None,
          onChange = Some (to_onChange object
            (map (\<lambda>(key, v). (key, props w object key)) properties)
            (map (\<lambda>(key, v). (key, endValueOf (props w object key) v)) properties)
            (case easing0 of None \<Rightarrow> defaultEasing | Some e \<Rightarrow> e)
            (Some (dur * Fin 1000))),
          onComplete = Some (\<lambda>w. w), startValue = None\<rparr> p t"
  by (simp add: to_def Let_def)

lemma positionMatch_minus: "positionMatch (CHR ''-'' # s) = None"
  by (simp add: positionMatch_def)

lemma resolvedPosition_undefined:
  "resolvedPosition ps pd dur lbls PUndefined = PNum (ps + pd)"
  by (simp add: resolvedPosition_def)

lemma resolvedPosition_minus_eq:
  "resolvedPosition ps pd dur lbls (PStr (CHR ''-'' # CHR ''='' # s)) =
     PNum (js_max (Fin 0) (dur + js_Number s * Fin 1000))"
  by (simp add: resolvedPosition_def positionMatch_minus)

lemma resolvedPosition_label:
  "positionMatch s = None \<Longrightarrow> take 1 s \<noteq> ''+'' \<Longrightarrow> take 1 s \<noteq> ''-'' \<Longrightarrow>
   s \<noteq> ''>'' \<Longrightarrow> s \<noteq> ''<'' \<Longrightarrow>
   resolvedPosition ps pd dur lbls (PStr s) =
     (case labelsGet lbls s of
        LNum v \<Rightarrow> if truthy v then PNum v else PUndefined
      | LInherited \<Rightarrow> PObject s
      | LUndefined \<Rightarrow> PUndefined)"
  by (simp add: resolvedPosition_def)

lemma in_unit_range: "Fin 0 \<le> v \<Longrightarrow> v \<le> Fin 1 \<Longrightarrow> \<not> (v < Fin 0 \<or> Fin 1 < v)"
  by (cases v) (auto simp: less_eq_jsnum_def)

lemma Fin0_plus [simp]: "Fin 0 + x = x"
  by (cases x) simp_all

lemma minus_Fin0 [simp]: "x - Fin 0 = x"
  by (cases x) simp_all

lemma js_max0_nonneg: "Fin 0 \<le> x \<Longrightarrow> js_max (Fin 0) x = x"
  by (cases x) (auto simp: js_max_def less_eq_jsnum_def)

lemma seekStart_resolved:
  "\<not> positionIsString (position a) \<Longrightarrow> seekAnimationStart lbls a = resolveAnimationStartTime a"
  by (cases "position a") (simp_all add: positionIsString_def seekAnimationStart_def resolveAnimationStartTime_def)

lemma seek_case_analysis:
  "(if s \<le> ct \<and> ct \<le> s + d then f (js_max (Fin 0) (ct - s))
    else if ct < s then f (Fin 0) else f d) =
   f (if ct < s then Fin 0 else if ct \<le> s + d then ct - s else d)"
  by (cases ct; cases s; cases d) (auto simp: less_eq_jsnum_def js_max_def)

lemma seekAnimation_resolved:
  "\<not> positionIsString (position a) \<Longrightarrow>
   seekAnimation lbls ct a w = call1 (onChange (options a)) (seekArgument ct a) w"
  unfolding seekAnimation_def seekArgument_def Let_def seekStart_resolved
  by (rule seek_case_analysis [where f = "\<lambda>x. call1 (onChange (options a)) x w"])

lemma fold_seekAnimation:
  "list_all (\<lambda>a. \<not> positionIsString (position a)) as \<Longrightarrow>
   fold (seekAnimation lbls ct) as w =
   fold (\<lambda>a. call1 (onChange (options a)) (seekArgument ct a)) as w"
  by (induction as arbitrary: w) (simp_all add: seekAnimation_resolved)

lemma exampleTimeline_animations:
  "animations exampleTimeline =
     [\<lparr>options = \<lparr>duration = Some (Fin 1000), easing = Some linearEasing, endValue = None,
          onChange = Some (to_onChange 0 [(''left'', VNum (Fin 10))]
                             [(''left'', Some (Fin 100))] linearEasing (Some (Fin 1000))),
          onComplete = Some (\<lambda>w. w), startValue = None\<rparr>, position = PNum (Fin 0)\<rparr>,
      \<lparr>options = \<lparr>duration = Some (Fin 1000), easing = Some linearEasing, endValue = None,
          onChange = Some (to_onChange 0 [(''top'', VNum (Fin 20))]
                             [(''top'', Some (Fin 50))] linearEasing (Some (Fin 1000))),
          onComplete = Some (\<lambda>w. w), startValue = None\<rparr>, position = PNum (Fin 1000)\<rparr>]"
  by (simp add: exampleTimeline_def to_add animations_add new_Timeline_simps
      resolvedPosition_undefined nullishZero_def exampleWorld_def endValueOf_def)

lemma exampleTimeline_duration: "tl_duration exampleTimeline = Fin 2000"
  unfolding exampleTimeline_def to_add tl_duration_add
  by (simp add: animations_add new_Timeline_simps resolvedPosition_undefined nullishZero_def
      durationStep_def orZero_def or0_def truthy_def)

lemma exampleTimeline_resolved: "positionsResolved exampleTimeline"
  by (simp add: positionsResolved_def exampleTimeline_animations positionIsString_def)

lemma to_onChange_example:
  "to_onChange 0 [(k, VNum (Fin a))] [(k, Some (Fin b))] linearEasing (Some (Fin 1000)) (Fin x) w =
     requestRenderAll 0 (object_set 0 k (VNum (Fin (a + x / 1000 * (b - a)))) w)"
  by (simp add: to_onChange_def to_onChangeKey_def linearEasing_def orZero_def or0_def truthy_def)

lemma parseFloat_abc: "parseFloat ''abc'' = NaN"
  by (simp add: parseFloat_def trimStart_def isWhite_def scanDecimal_def scanInfinity_def
      scanUnsigned_def isDigit_def)

lemma propertyMatch_abc: "propertyMatch ''abc'' = None"
  by (simp add: propertyMatch_def)

lemma endValueOf_unparseable:
  "propertyMatch s = None \<Longrightarrow> parseFloat s = NaN \<Longrightarrow> endValueOf v (VStr s) = Some NaN"
  by (simp add: endValueOf_def)

lemma to_onChangeKey_NaN:
  "map_of startValues key = Some (VNum a) \<Longrightarrow>
   setCalls (to_onChangeKey ob startValues ease dur ct (key, Some NaN) w) =
     setCalls w @ [(ob, key, VNum (ease ct a NaN (orZero dur)))]"
  by (simp add: to_onChangeKey_def object_set_def Let_def)

lemma setCalls_requestRenderAll [simp]:
  "setCalls (requestRenderAll ob w) = setCalls w"
  by (simp add: requestRenderAll_def)

lemma animations_pause [simp]: "animations (pause t) = animations t"
  by (simp add: pause_def Let_def)

lemma currentTime_pause [simp]: "currentTime (pause t) = currentTime t"
  by (simp add: pause_def Let_def)

lemma currentTime_handleTimelineCompletion:
  "currentTime (fst (handleTimelineCompletion time (t, w))) = currentTime t"
  by (simp add: handleTimelineCompletion_def handleRepeatForward_def handleRepeatBackward_def
      Let_def)

lemma currentTime_requestNextFrame [simp]:
  "currentTime (requestNextFrame fid t) = currentTime t"
  by (simp add: requestNextFrame_def)

lemma currentTime_runAnimations:
  "currentTime (fst (runAnimations time fid (t, w))) =
   currentTime (calculateCurrentTime time
     (if \<not> (case startTime t of None \<Rightarrow> False | Some x \<Rightarrow> truthy x)
      then t\<lparr>startTime := Some time\<rparr> else t))"
  by (simp add: runAnimations_def Let_def case_prod_beta currentTime_handleTimelineCompletion)

lemma currentTime_calculateCurrentTime:
  "currentTime (calculateCurrentTime time t) =
   (if repeat t \<noteq> Fin 0
    then foldedPlayhead (time - nullishZero (startTime t)) (tl_duration t) (repeatDelay t)
           (shouldYoyo t) (playDirection t)
    else unfoldedPlayhead (time - nullishZero (startTime t)) (tl_duration t)
           (playDirection t))"
  by (simp add: calculateCurrentTime_def foldedPlayhead_def unfoldedPlayhead_def Let_def)

lemma trunc_nonneg: "0 \<le> r \<Longrightarrow> trunc r = \<lfloor>r\<rfloor>"
  by (simp add: trunc_def)

lemma js_rem_2_odd:
  "0 \<le> n \<Longrightarrow> (js_rem (Fin (of_int n)) (Fin 2) = Fin 1) = odd n"
proof -
  assume n: "0 \<le> n"
  have "trunc (of_int n / 2) = n div 2"
    using n by (simp add: trunc_nonneg floor_divide_of_int_eq [of n 2, simplified])
  then have "js_rem (Fin (of_int n)) (Fin 2) = Fin (of_int (n - 2 * (n div 2)))"
    by simp
  also have "n - 2 * (n div 2) = n mod 2"
    by (simp add: minus_mult_div_eq_mod)
  finally show ?thesis
    by (auto simp: odd_iff_mod_2_eq_one)
qed

lemma orZero_Fin: "orZero (Some (Fin x)) = Fin x"
  by (simp add: orZero_def or0_def truthy_def)

lemma to_sequential_step:
  assumes d: "0 \<le> d"
    and f: "fold durationStep (animations t) (Fin 0) = Fin S"
    and e: "previousEnd t = Fin S"
  shows "\<exists>a. animations (to de ob ps (Fin d) PUndefined ea w t) = animations t @ [a] \<and>
     position a = PNum (Fin S) \<and> duration (options a) = Some (Fin (d * 1000)) \<and>
     tl_duration (to de ob ps (Fin d) PUndefined ea w t) = Fin (S + d * 1000) \<and>
     fold durationStep (animations (to de ob ps (Fin d) PUndefined ea w t)) (Fin 0)
       = Fin (S + d * 1000) \<and>
     previousEnd (to de ob ps (Fin d) PUndefined ea w t) = Fin (S + d * 1000)"
proof -
  let ?t' = "to de ob ps (Fin d) PUndefined ea w t"
  obtain a where a: "animations ?t' = animations t @ [a]"
      "position a = PNum (previousEnd t)" "duration (options a) = Some (Fin (d * 1000))"
    by (simp add: to_add animations_add resolvedPosition_undefined previousEnd_def)
  have s: "durationStep a (Fin S) = Fin (S + d * 1000)"
    using d by (simp add: durationStep_def a e orZero_Fin max_def)
  have "fold durationStep (animations ?t') (Fin 0) = Fin (S + d * 1000)"
    by (simp add: a(1) f s)
  moreover have "tl_duration ?t' = fold durationStep (animations ?t') (Fin 0)"
    by (simp add: to_add tl_duration_add)
  moreover have "previousEnd ?t' = Fin (S + d * 1000)"
  proof -
    have "previousEnd ?t' =
      (case position a of PNum n \<Rightarrow> n | _ \<Rightarrow> Fin 0) + nullishZero (duration (options a))"
      by (simp add: previousEnd_def a(1))
    then show ?thesis
      by (simp add: a(2) a(3) e nullishZero_def)
  qed
  ultimately show ?thesis
    using a e by auto
qed

lemma toChain_sequential:
  assumes "\<forall>c\<in>set cs. 0 \<le> seconds c"
    and "tl_duration t = Fin S"
    and "fold durationStep (animations t) (Fin 0) = Fin S"
    and "previousEnd t = Fin S"
  shows "\<exists>bs. animations (toChain de cs t) = animations t @ bs \<and> length bs = length cs \<and>
     (\<forall>i<length cs.
        duration (options (bs ! i)) = Some (Fin (seconds (cs ! i) * 1000)) \<and>
        position (bs ! i) = PNum (Fin (S + (\<Sum>c\<leftarrow>take i cs. seconds c * 1000)))) \<and>
     tl_duration (toChain de cs t) = Fin (S + (\<Sum>c\<leftarrow>cs. seconds c * 1000))"
  using assms
proof (induction cs arbitrary: t S)
  case Nil
  then show ?case by simp
next
  case (Cons c cs)
  obtain ob ps d e w where c: "c = (ob, ps, d, e, w)"
    by (cases c) auto
  have d: "0 \<le> d" and sd: "seconds c = d"
    using Cons.prems(1) by (simp_all add: c seconds_def)
  let ?t' = "to de ob ps (Fin d) PUndefined e w t"
  obtain a where a: "animations ?t' = animations t @ [a]"
      "position a = PNum (Fin S)" "duration (options a) = Some (Fin (d * 1000))"
      "tl_duration ?t' = Fin (S + d * 1000)"
      "fold durationStep (animations ?t') (Fin 0) = Fin (S + d * 1000)"
      "previousEnd ?t' = Fin (S + d * 1000)"
    using to_sequential_step [OF d Cons.prems(3) Cons.prems(4)] by blast
  have "\<forall>c\<in>set cs. 0 \<le> seconds c"
    using Cons.prems(1) by simp
  from Cons.IH [OF this a(4) a(5) a(6)]
  obtain bs where bs: "animations (toChain de cs ?t') = animations ?t' @ bs"
      "length bs = length cs"
      "\<forall>i<length cs.
        duration (options (bs ! i)) = Some (Fin (seconds (cs ! i) * 1000)) \<and>
        position (bs ! i) = PNum (Fin (S + d * 1000 + (\<Sum>c\<leftarrow>take i cs. seconds c * 1000)))"
      "tl_duration (toChain de cs ?t') = Fin (S + d * 1000 + (\<Sum>c\<leftarrow>cs. seconds c * 1000))"
    by blast
  have "\<forall>i<length (c # cs).
        duration (options ((a # bs) ! i)) = Some (Fin (seconds ((c # cs) ! i) * 1000)) \<and>
        position ((a # bs) ! i) =
          PNum (Fin (S + (\<Sum>c\<leftarrow>take i (c # cs). seconds c * 1000)))"
  proof (intro allI impI)
    fix i assume i: "i < length (c # cs)"
    show "duration (options ((a # bs) ! i)) = Some (Fin (seconds ((c # cs) ! i) * 1000)) \<and>
        position ((a # bs) ! i) =
          PNum (Fin (S + (\<Sum>c\<leftarrow>take i (c # cs). seconds c * 1000)))"
    proof (cases i)
      case 0
      then show ?thesis by (simp add: a sd)
    next
      case (Suc j)
      then have "j < length cs" using i by simp
      then show ?thesis using bs(3) Suc by (simp add: sd add.assoc)
    qed
  qed
  moreover have "animations (toChain de (c # cs) t) = animations t @ (a # bs)"
    by (simp add: c bs(1) a(1))
  moreover have "tl_duration (toChain de (c # cs) t)
      = Fin (S + (\<Sum>c\<leftarrow>c # cs. seconds c * 1000))"
    by (simp add: c bs(4) sd [unfolded c] seconds_def add.assoc)
  ultimately show ?case
    using bs(2) by (intro exI [of _ "a # bs"]) simp
qed



lemma animations_addLabel [simp]: "animations (addLabel l p t) = animations t"
  by (simp add: addLabel_def split: pos.splits)

lemma animations_play [simp]: "animations (play from now fid t) = animations t"
  by (simp add: play_def Let_def split: pos.splits labelval.splits)

lemma animations_reverse [simp]: "animations (reverse now fid t) = animations t"
  by (simp add: reverse_def Let_def)

lemma animations_seek [simp]: "animations (fst (seek time (t, w))) = animations t"
  by (simp add: seek_def Let_def)

lemma animations_progress [simp]: "animations (fst (snd (progress v (t, w)))) = animations t"
  by (simp add: progress_def)

lemma animations_togglePlayPause [simp]:
  "animations (togglePlayPause now fid t) = animations t"
  by (simp add: togglePlayPause_def)


lemma animations_handleTimelineCompletion:
  "animations (fst (handleTimelineCompletion time (t, w))) = animations t"
  by (simp add: handleTimelineCompletion_def handleRepeatForward_def handleRepeatBackward_def
      Let_def)

lemma animations_calculateCurrentTime [simp]:
  "animations (calculateCurrentTime time t) = animations t"
  by (simp add: calculateCurrentTime_def Let_def)

lemma animations_requestNextFrame [simp]:
  "animations (requestNextFrame fid t) = animations t"
  by (simp add: requestNextFrame_def)

lemma animations_runAnimations [simp]:
  "animations (fst (runAnimations time fid (t, w))) = animations t"
  by (simp add: runAnimations_def Let_def case_prod_beta animations_handleTimelineCompletion)



lemma processAnimation_unresolved:
  "position a = PUndefined \<Longrightarrow> processAnimation ct a w = frameCallFromZero ct a w"
  by (simp add: processAnimation_def resolveAnimationStartTime_def frameCallFromZero_def
      js_max0_nonneg Let_def)

lemma seekAnimation_unresolved:
  "position a = PUndefined \<Longrightarrow> seekAnimation lbls ct a w = seekCallFromZero ct a w"
  by (simp add: seekAnimation_def seekAnimationStart_def seekCallFromZero_def
      js_max0_nonneg Let_def)

lemma durationStep_unresolved:
  "position a = PUndefined \<Longrightarrow>
   durationStep a calc = js_max calc (calc + orZero (duration (options a)))"
  by (simp add: durationStep_def Let_def)

lemma animations_frameTimeline [simp]: "animations (frameTimeline time t) = animations t"
  by (simp add: frameTimeline_def)

lemma runAnimations_frameTimeline:
  "runAnimations time fid (t, w) =
     (let t2 = frameTimeline time t;
          r = handleTimelineCompletion time
                (t2, handleTimelineUpdate t2 (processAnimations t2 w))
      in (requestNextFrame fid (fst r), snd r))"
  by (simp add: runAnimations_def frameTimeline_def Let_def case_prod_beta)

lemma unresolvedTimeline_animations:
  "animations unresolvedTimeline =
     animations exampleTimeline @
     [\<lparr>options = \<lparr>duration = Some (Fin 1000), easing = Some linearEasing, endValue = None,
          onChange = Some (to_onChange 0 [(''left'', VNum (Fin 10))]
                             [(''left'', Some (Fin 0))] linearEasing (Some (Fin 1000))),
          onComplete = Some (\<lambda>w. w), startValue = None\<rparr>, position = PUndefined\<rparr>]"
  by (simp add: unresolvedTimeline_def to_add animations_add resolvedPosition_label
      positionMatch_def labelsGet_def objectPrototypeNames_def exampleTimeline_def labels_add
      new_Timeline_simps exampleWorld_def endValueOf_def)

lemma unresolvedTimeline_fields:
  "tl_duration unresolvedTimeline = Fin 3000"
  "isPlayingInternal unresolvedTimeline = False"
  "repeat unresolvedTimeline = Fin 0"
  "onUpdateCallback unresolvedTimeline = None"
  "currentTime unresolvedTimeline = Fin 0"
proof -
  show "tl_duration unresolvedTimeline = Fin 3000"
    unfolding unresolvedTimeline_def to_add tl_duration_add
    unfolding to_add [symmetric] unresolvedTimeline_def [symmetric]
    by (simp add: unresolvedTimeline_animations exampleTimeline_animations durationStep_def
        orZero_def or0_def truthy_def)
  show "isPlayingInternal unresolvedTimeline = False" "repeat unresolvedTimeline = Fin 0"
    "onUpdateCallback unresolvedTimeline = None" "currentTime unresolvedTimeline = Fin 0"
    by (simp_all add: unresolvedTimeline_def exampleTimeline_def to_add add_def
        calculateDuration_def new_Timeline_def yoyo_set_def Let_def noOptions_def
        nullishZero_def)
qed


lemma unresolvedTimeline_more:
  "repeatDelay unresolvedTimeline = Fin 0" "startTime unresolvedTimeline = None"
  "labels unresolvedTimeline = Map.empty"
  by (simp_all add: unresolvedTimeline_def exampleTimeline_def to_add add_def
      calculateDuration_def new_Timeline_def yoyo_set_def Let_def noOptions_def
      nullishZero_def)




section \<open>The claims\<close>

subsection \<open>C1: the position token -=N\<close>

text \<open>
  C1 says that an entry added with the token \<^verbatim>\<open>'-=N'\<close> starts at
  \<open>max(0, duration - N*1000)\<close>. The branch of \<open>add\<close> for \<^verbatim>\<open>'-='\<close> adds the offset:
  for every text \<open>s\<close> after \<^verbatim>\<open>-=\<close>, the entry that \<open>add\<close> stores has the position
  \<open>max(0, duration + Number(s)*1000)\<close>, where \<open>duration\<close> is the total duration at the
  time of the call.
\<close>

theorem C1_minus_token_adds_offset:
  "position (last (animations (add opts (PStr (''-='' @ s)) t))) =
     PNum (js_max (Fin 0) (tl_duration t + js_Number s * Fin 1000))"
  by (simp add: animations_add resolvedPosition_minus_eq)

text \<open>
  On a timeline holding one tween of two seconds, \<^verbatim>\<open>to(obj, props, 1, '-=0.5')\<close>
  stores the position 2500, and not 1500.
\<close>

lemma C1_trace:
  "map position (animations
     (to de ob2 ps2 (Fin 1) (PStr ''-=0.5'') e2 w2
        (to de ob1 ps1 (Fin 2) PUndefined e1 w1 (new_Timeline opts)))) =
   [PNum (Fin 0), PNum (Fin 2500)]"
  by (simp add: to_add animations_add tl_duration_add new_Timeline_simps
      resolvedPosition_minus_eq js_Number_half durationStep_def orZero_def or0_def
      truthy_def resolvedPosition_undefined nullishZero_def)

subsection \<open>C2: play() on a finished timeline\<close>

text \<open>
  C2 says that \<open>play()\<close> without argument, on a timeline that is not playing and whose
  \<open>currentTime\<close> has reached \<open>duration\<close>, resets \<open>currentTime\<close> to 0. \<open>play\<close> sets
  \<^verbatim>\<open>isPlayingInternal\<close> before it tests \<^verbatim>\<open>!this.isPlaying\<close>, so the reset is never
  taken: \<open>play()\<close> without argument leaves \<open>currentTime\<close> as it was, whatever the state.
\<close>

theorem C2_play_keeps_currentTime:
  "currentTime (play PUndefined now fid t) = currentTime t"
  by (simp add: play_def isPlaying_def Let_def)

text \<open>
  A timeline of two seconds, moved to its end with \<open>seek(2)\<close>: after \<open>play()\<close> the
  playhead is still at 2000 and the loop is anchored 2000 ms before \<open>now\<close>.
\<close>

lemma C2_trace:
  "t = fst (seek (Fin 2) (to de ob ps (Fin 2) PUndefined e w (new_Timeline opts), w)) \<Longrightarrow>
   \<not> isPlaying t \<and> tl_duration t \<le> currentTime t \<and>
   currentTime (play PUndefined now fid t) = Fin 2000 \<and>
   startTime (play PUndefined now fid t) = Some (now - Fin 2000)"
  by (simp add: seek_def to_add tl_duration_add animations_add new_Timeline_simps
      resolvedPosition_undefined durationStep_def orZero_def or0_def truthy_def
      play_def isPlaying_def Let_def add_def calculateDuration_def)

subsection \<open>C3: end values that do not parse\<close>

text \<open>
  C3 says that a property whose end value is a string that is neither a relative token
  nor a number is never written by the entry's \<open>onChange\<close>. \<open>to\<close> stores
  \<^verbatim>\<open>parseFloat(propertyValue)\<close>, which is NaN, and the test
  \<^verbatim>\<open>typeof endVal === 'number'\<close> of \<open>onChange\<close> lets NaN pass: with the target's
  \<^verbatim>\<open>left\<close> at 10, \<^verbatim>\<open>to(obj, {left: 'abc'}, 1, undefined, ease)\<close> followed by
  \<open>seek(0.5)\<close> calls \<^verbatim>\<open>set\<close> on \<^verbatim>\<open>left\<close> once, with the value of the easing for a
  change of NaN.
\<close>

theorem C3_unparseable_end_value_written:
  "setCalls (snd (seek (Fin (1 / 2))
      (to de 0 [(''left'', VStr ''abc'')] (Fin 1) PUndefined (Some ease) exampleWorld
         (new_Timeline opts), exampleWorld))) =
   [(0, ''left'', VNum (ease (Fin 500) (Fin 10) NaN (Fin 1000)))]"
  by (simp add: seek_def to_add animations_add labels_add new_Timeline_simps
      resolvedPosition_undefined seekAnimation_def seekAnimationStart_def nullishZero_def
      call1_def to_onChange_def Let_def endValueOf_unparseable parseFloat_abc
      propertyMatch_abc to_onChangeKey_NaN exampleWorld_def orZero_def or0_def truthy_def)

subsection \<open>C4: the playhead of a frame\<close>

text \<open>
  C4 says that every frame folds the elapsed time into a cycle, for every
  configuration. The code folds only when \<^verbatim>\<open>repeat !== 0\<close>. On the timeline of the
  example (two seconds, no repeat), played at time 100, the frame at time 2116 has
  the elapsed time 2016: the playhead is 2016, and the folding rule gives 16.
\<close>

theorem C4_counterexample:
  "currentTime (fst (runAnimations (Fin 2116) 3
      (play PUndefined (Fin 100) 2 exampleTimeline, exampleWorld))) = Fin 2016 \<and>
   foldedPlayhead (Fin 2116 - Fin 100) (tl_duration exampleTimeline)
     (repeatDelay exampleTimeline) (shouldYoyo exampleTimeline) Forward = Fin 16 \<and>
   currentTime (fst (runAnimations (Fin 2116) 3
      (play PUndefined (Fin 100) 2 exampleTimeline, exampleWorld))) \<noteq>
   foldedPlayhead (Fin 2116 - Fin 100) (tl_duration exampleTimeline)
     (repeatDelay exampleTimeline) (shouldYoyo exampleTimeline) Forward"
proof -
  have p: "play PUndefined (Fin 100) 2 exampleTimeline =
     exampleTimeline\<lparr>isPlayingInternal := True, isPausedInternal := False,
        playDirection := Forward, startTime := Some (Fin 100), animationFrameId := Some 2\<rparr>"
    by (simp add: play_def isPlaying_def exampleTimeline_def to_add add_def
        calculateDuration_def new_Timeline_def yoyo_set_def Let_def)
  have r: "repeat exampleTimeline = Fin 0" "repeatDelay exampleTimeline = Fin 0"
    "shouldYoyo exampleTimeline = False"
    by (simp_all add: exampleTimeline_def to_add add_def calculateDuration_def
        new_Timeline_def yoyo_set_def Let_def noOptions_def nullishZero_def)
  have a: "currentTime (fst (runAnimations (Fin 2116) 3
      (play PUndefined (Fin 100) 2 exampleTimeline, exampleWorld))) = Fin 2016"
    unfolding currentTime_runAnimations currentTime_calculateCurrentTime p
    by (simp add: r truthy_def nullishZero_def unfoldedPlayhead_def)
  have b: "foldedPlayhead (Fin 2116 - Fin 100) (tl_duration exampleTimeline)
     (repeatDelay exampleTimeline) (shouldYoyo exampleTimeline) Forward = Fin 16"
    by (simp add: r exampleTimeline_duration foldedPlayhead_def trunc_def)
  show ?thesis using a b by simp
qed

text \<open>
  C4 as amended: after a frame, \<open>currentTime\<close> is given by the folding rule when
  \<^verbatim>\<open>repeat\<close> is not 0, and is the elapsed time, unfolded, when it is 0 (the elapsed time
  itself forward, \<open>max(0, duration - elapsed)\<close> backward). The elapsed time is counted
  from \<^verbatim>\<open>startTime\<close>, or from the frame's own time when \<^verbatim>\<open>startTime\<close> is falsy.
\<close>

theorem C4_playhead:
  "currentTime (fst (runAnimations time fid (t, w))) =
   (let start = (case startTime t of None \<Rightarrow> time | Some x \<Rightarrow> if truthy x then x else time);
        elapsed = time - start
    in if repeat t \<noteq> Fin 0
       then foldedPlayhead elapsed (tl_duration t) (repeatDelay t) (shouldYoyo t)
              (playDirection t)
       else unfoldedPlayhead elapsed (tl_duration t) (playDirection t))"
proof (cases "case startTime t of None \<Rightarrow> False | Some x \<Rightarrow> truthy x")
  case True
  then obtain x where x: "startTime t = Some x" "truthy x"
    by (cases "startTime t") auto
  show ?thesis
    unfolding currentTime_runAnimations currentTime_calculateCurrentTime
    using x by (simp add: nullishZero_def)
next
  case False
  then have s: "(case startTime t of None \<Rightarrow> time | Some x \<Rightarrow> if truthy x then x else time) = time"
    by (cases "startTime t") auto
  show ?thesis
    unfolding currentTime_runAnimations currentTime_calculateCurrentTime s
    using False by (simp add: nullishZero_def)
qed

theorem C4_playhead_witness:
  "repeat yoyoTimeline \<noteq> Fin 0 \<and>
   currentTime (fst (runAnimations (Fin 1350) 3
      (play PUndefined (Fin 100) 2 yoyoTimeline, exampleWorld))) = Fin 750"
proof -
  have p: "play PUndefined (Fin 100) 2 yoyoTimeline =
     yoyoTimeline\<lparr>isPlayingInternal := True, isPausedInternal := False,
        playDirection := Forward, startTime := Some (Fin 100), animationFrameId := Some 2\<rparr>"
    by (simp add: play_def isPlaying_def yoyoTimeline_def to_add add_def
        calculateDuration_def new_Timeline_def yoyo_set_def Let_def)
  have r: "repeat yoyoTimeline = Fin (- 1)" "repeatDelay yoyoTimeline = Fin 0"
    "shouldYoyo yoyoTimeline = True"
    by (simp_all add: yoyoTimeline_def to_add add_def calculateDuration_def
        new_Timeline_def yoyo_set_def Let_def noOptions_def nullishZero_def)
  have d: "tl_duration yoyoTimeline = Fin 1000"
    unfolding yoyoTimeline_def to_add tl_duration_add
    by (simp add: animations_add new_Timeline_simps resolvedPosition_undefined
        durationStep_def orZero_def or0_def truthy_def)
  have f: "\<lfloor>5 / 4 :: real\<rfloor> = 1" by linarith
  show ?thesis
    using C4_playhead [of "Fin 1350" 3 "play PUndefined (Fin 100) 2 yoyoTimeline" exampleWorld]
    by (simp add: p r d truthy_def foldedPlayhead_def trunc_def f)
qed

text \<open>
  For an elapsed time \<open>e \<ge> 0\<close> and a cycle of duration \<open>c > 0\<close>, the remainder and the
  parity test of the rule are the mathematical ones: \<open>e mod c\<close> and
  \<open>odd \<lfloor>e / c\<rfloor>\<close>.
\<close>

lemma foldedPlayhead_reading:
  assumes "0 \<le> e" "0 < c" "dur + delay * Fin 1000 = Fin c"
  shows "foldedPlayhead (Fin e) dur delay yoyo dir =
     (let cycleTime = e - c * of_int \<lfloor>e / c\<rfloor>;
          folded = (if yoyo \<and> odd \<lfloor>e / c\<rfloor> then c - cycleTime else cycleTime)
      in if dir = Forward then Fin folded else js_max (Fin 0) (dur - Fin folded))"
proof -
  have q: "0 \<le> e / c" using assms by simp
  then have f: "0 \<le> \<lfloor>e / c\<rfloor>" by simp
  show ?thesis
    using assms(2) js_rem_2_odd [OF f]
    by (simp add: foldedPlayhead_def assms(3) Let_def trunc_nonneg [OF q])
qed

subsection \<open>C5: a label as position token\<close>

text \<open>
  C5 says that a token naming a label in the table gives the entry the label's time,
  also when that time is 0. \<open>add\<close> tests \<^verbatim>\<open>this.labels[position]\<close> for truthiness, and
  0 is falsy: with the label \<^verbatim>\<open>start\<close> put at 0 by \<open>addLabel\<close> on the empty timeline,
  the second of two tweens of one second, added at \<^verbatim>\<open>'start'\<close>, gets no position, and
  the total duration is 2000 instead of 1000.
\<close>

theorem C5_label_at_zero_unresolved:
  "(let t = to de ob2 ps2 (Fin 1) (PStr ''start'') e2 w2
              (to de ob1 ps1 (Fin 1) PUndefined e1 w1
                 (addLabel ''start'' PUndefined (new_Timeline opts)))
    in labels t ''start'' = Some (Fin 0) \<and>
       map position (animations t) = [PNum (Fin 0), PUndefined] \<and>
       tl_duration t = Fin 2000)"
  by (simp add: Let_def to_add animations_add tl_duration_add labels_add new_Timeline_simps
      addLabel_def positionMatch_def durationStep_def orZero_def or0_def truthy_def
      resolvedPosition_undefined resolvedPosition_label nullishZero_def labelsGet_def
      labelsSet_def)

text \<open>
  For a token that no earlier rule of \<open>add\<close> takes (it is not \<^verbatim>\<open><\<close> or \<^verbatim>\<open>>\<close>, does
  not match the expression for \<^verbatim>\<open><N\<close> and \<^verbatim>\<open>>N\<close>, and does not start with a sign):
  a label whose time is truthy gives the entry its time, and a label at 0 gives none.
\<close>

lemma label_token_resolves:
  "positionMatch s = None \<Longrightarrow> take 1 s \<noteq> ''+'' \<Longrightarrow> take 1 s \<noteq> ''-'' \<Longrightarrow>
   s \<noteq> ''>'' \<Longrightarrow> s \<noteq> ''<'' \<Longrightarrow> lbls s = Some v \<Longrightarrow> truthy v \<Longrightarrow>
   resolvedPosition ps pd dur lbls (PStr s) = PNum v"
  by (simp add: resolvedPosition_label labelsGet_def)

lemma label_token_at_zero:
  "positionMatch s = None \<Longrightarrow> take 1 s \<noteq> ''+'' \<Longrightarrow> take 1 s \<noteq> ''-'' \<Longrightarrow>
   s \<noteq> ''>'' \<Longrightarrow> s \<noteq> ''<'' \<Longrightarrow> lbls s = Some (Fin 0) \<Longrightarrow>
   resolvedPosition ps pd dur lbls (PStr s) = PUndefined"
  by (simp add: resolvedPosition_label labelsGet_def truthy_def)

subsection \<open>C6: chains of to() without position\<close>

text \<open>
  C6: on a new timeline, after a chain of calls of \<open>to\<close> without position, each
  with a duration that is not negative, the entries are those of the calls in order,
  entry \<open>i\<close> starts at the sum of the durations of the entries before it (where entry
  \<open>i - 1\<close> ends), and the duration of the timeline is the sum of the durations of the
  entries, in milliseconds.
\<close>

theorem C6_sequential_chain:
  assumes "\<forall>c\<in>set cs. 0 \<le> seconds c"
  shows "(let t = toChain de cs (new_Timeline opts); as = animations t in
     length as = length cs \<and>
     (\<forall>i<length cs.
        duration (options (as ! i)) = Some (Fin (seconds (cs ! i) * 1000)) \<and>
        position (as ! i) = PNum (Fin (\<Sum>c\<leftarrow>take i cs. seconds c * 1000))) \<and>
     tl_duration t = Fin (\<Sum>c\<leftarrow>cs. seconds c * 1000))"
proof -
  have "previousEnd (new_Timeline opts) = Fin 0"
    by (simp add: previousEnd_def new_Timeline_simps)
  from toChain_sequential [OF assms, of "new_Timeline opts" 0 de] this
  show ?thesis
    by (auto simp: new_Timeline_simps Let_def)
qed


theorem C6_sequential_chain_witness:
  "0 \<le> seconds (0, [(''left'', VNum (Fin 100))], 1, None, exampleWorld) \<and>
   0 \<le> seconds (0, [(''top'', VNum (Fin 50))], 1 / 2, None, exampleWorld) \<and>
   tl_duration (toChain linearEasing
      [(0, [(''left'', VNum (Fin 100))], 1, None, exampleWorld),
       (0, [(''top'', VNum (Fin 50))], 1 / 2, None, exampleWorld)]
      (new_Timeline noOptions)) = Fin 1500 \<and>
   map position (animations (toChain linearEasing
      [(0, [(''left'', VNum (Fin 100))], 1, None, exampleWorld),
       (0, [(''top'', VNum (Fin 50))], 1 / 2, None, exampleWorld)]
      (new_Timeline noOptions))) = [PNum (Fin 0), PNum (Fin 1000)]"
proof -
  define cs where "cs =
      [(0::nat, [(''left'', VNum (Fin 100))], 1::real, None::easingfn option, exampleWorld),
       (0, [(''top'', VNum (Fin 50))], 1 / 2, None, exampleWorld)]"
  have h: "\<forall>c\<in>set cs. 0 \<le> seconds c"
    by (simp add: cs_def seconds_def)
  have l: "length cs = 2" "cs ! 0 = (0, [(''left'', VNum (Fin 100))], 1, None, exampleWorld)"
    "cs ! 1 = (0, [(''top'', VNum (Fin 50))], 1 / 2, None, exampleWorld)"
    by (simp_all add: cs_def)
  define as where "as = animations (toChain linearEasing cs (new_Timeline noOptions))"
  have r: "length as = 2"
    "\<forall>i<2. position (as ! i) = PNum (Fin (\<Sum>c\<leftarrow>take i cs. seconds c * 1000))"
    "tl_duration (toChain linearEasing cs (new_Timeline noOptions)) =
       Fin (\<Sum>c\<leftarrow>cs. seconds c * 1000)"
    using C6_sequential_chain [OF h, of linearEasing noOptions]
    by (simp_all add: Let_def l(1) as_def)
  have p0: "position (as ! 0) = PNum (Fin 0)" and p1: "position (as ! 1) = PNum (Fin 1000)"
    using r(2) by (simp_all add: cs_def seconds_def)
  have "as = [as ! 0, as ! 1]"
    using r(1) by (cases as; cases "tl as") auto
  then have "map position as = [PNum (Fin 0), PNum (Fin 1000)]"
    using p0 p1 by (metis list.simps(8) list.simps(9))
  then show ?thesis
    using r(3) by (simp add: as_def cs_def seconds_def)
qed

subsection \<open>C7: seek\<close>

text \<open>
  C7: \<open>seek(t)\<close> sets \<open>currentTime\<close> to \<open>t*1000\<close>, leaves \<open>isPlaying\<close>, \<open>isPaused\<close> and
  the pending frame handle as they are, and calls the \<open>onChange\<close> of every entry once,
  in the order of insertion, with 0 before the entry's window, with the time since the
  entry's start inside it, and with the entry's duration after it (\<open>seekArgument\<close>).
  The timeline is one whose entries store no string position, as every timeline built
  through the public methods is (C10).
\<close>

theorem C7_seek:
  "positionsResolved t \<Longrightarrow>
   seek time (t, w) =
     (t\<lparr>currentTime := time * Fin 1000\<rparr>,
      fold (\<lambda>a. call1 (onChange (options a)) (seekArgument (time * Fin 1000) a))
        (animations t) w) \<and>
   isPlayingInternal (fst (seek time (t, w))) = isPlayingInternal t \<and>
   isPausedInternal (fst (seek time (t, w))) = isPausedInternal t \<and>
   animationFrameId (fst (seek time (t, w))) = animationFrameId t"
  by (simp add: seek_def positionsResolved_def fold_seekAnimation)


theorem C7_seek_witness:
  "positionsResolved exampleTimeline \<and>
   map (seekArgument (Fin (3 / 2) * Fin 1000)) (animations exampleTimeline)
     = [Fin 1000, Fin 500] \<and>
   currentTime (fst (seek (Fin (3 / 2)) (exampleTimeline, exampleWorld))) = Fin 1500 \<and>
   setCalls (snd (seek (Fin (3 / 2)) (exampleTimeline, exampleWorld)))
     = [(0, ''left'', VNum (Fin 100)), (0, ''top'', VNum (Fin 35))]"
proof -
  have args: "map (seekArgument (Fin (3 / 2) * Fin 1000)) (animations exampleTimeline)
     = [Fin 1000, Fin 500]"
    by (simp add: exampleTimeline_animations seekArgument_def resolveAnimationStartTime_def
        nullishZero_def)
  have "seek (Fin (3 / 2)) (exampleTimeline, exampleWorld) =
     (exampleTimeline\<lparr>currentTime := Fin (3 / 2) * Fin 1000\<rparr>,
      fold (\<lambda>a. call1 (onChange (options a)) (seekArgument (Fin (3 / 2) * Fin 1000) a))
        (animations exampleTimeline) exampleWorld)"
    using C7_seek [OF exampleTimeline_resolved] by blast
  then show ?thesis
    using args
    by (simp add: exampleTimeline_resolved exampleTimeline_animations call1_def
        to_onChange_example requestRenderAll_def object_set_def exampleWorld_def)
qed

subsection \<open>C8: progress\<close>

text \<open>
  C8: \<open>progress(v)\<close> with \<open>v < 0\<close> or \<open>v > 1\<close> returns the timeline and the world as they
  were, with one warning on the console; with \<open>0 \<le> v \<le> 1\<close> it is
  \<open>seek(duration * v / 1000)\<close> and writes no warning.
\<close>

theorem C8_progress:
  "(v < Fin 0 \<or> Fin 1 < v \<longrightarrow>
      progress v (t, w) = ([''Progress value should be between 0 and 1''], t, w)) \<and>
   (Fin 0 \<le> v \<and> v \<le> Fin 1 \<longrightarrow>
      progress v (t, w) = ([], seek (js_div (tl_duration t * v) (Fin 1000)) (t, w)))"
  using in_unit_range [of v] by (simp add: progress_def)

theorem C8_progress_witness:
  "Fin 1 < Fin 2 \<and>
   progress (Fin 2) (exampleTimeline, exampleWorld) =
     ([''Progress value should be between 0 and 1''], exampleTimeline, exampleWorld) \<and>
   Fin 0 \<le> Fin (1 / 2) \<and> Fin (1 / 2) \<le> Fin 1 \<and>
   progress (Fin (1 / 2)) (exampleTimeline, exampleWorld) =
     ([], seek (Fin 1) (exampleTimeline, exampleWorld))"
  using C8_progress [of "Fin 2" exampleTimeline exampleWorld]
    C8_progress [of "Fin (1 / 2)" exampleTimeline exampleWorld]
  by (simp add: exampleTimeline_duration)

subsection \<open>C9: entries without a resolved position\<close>

text \<open>
  C9: in a timeline that holds an entry whose stored position is \<^verbatim>\<open>undefined\<close>, among
  the entries \<open>xs\<close> before it and \<open>ys\<close> after it, the loop of a frame
  (\<open>processAnimations\<close>, and so \<open>runAnimations\<close>) and the loop of \<open>seek\<close> evaluate that
  entry, in its place, with the start time 0: its window is from 0 to its duration
  (\<open>frameCallFromZero\<close>, \<open>seekCallFromZero\<close>). The loop of \<open>calculateDuration\<close> places
  the same entry at the running total, the duration of the entries before it.
\<close>

theorem C9_unresolved_entry:
  assumes "animations t = xs @ a # ys" and "position a = PUndefined"
  shows "processAnimations t w =
       fold (processAnimation (currentTime t)) ys
         (frameCallFromZero (currentTime t) a
            (fold (processAnimation (currentTime t)) xs w)) \<and>
     runAnimations time fid (t, w) =
       (let t2 = frameTimeline time t;
            r = handleTimelineCompletion time
                  (t2, handleTimelineUpdate t2
                     (fold (processAnimation (currentTime t2)) ys
                        (frameCallFromZero (currentTime t2) a
                           (fold (processAnimation (currentTime t2)) xs w))))
        in (requestNextFrame fid (fst r), snd r)) \<and>
     seek time (t, w) =
       (t\<lparr>currentTime := time * Fin 1000\<rparr>,
        fold (seekAnimation (labels t) (time * Fin 1000)) ys
          (seekCallFromZero (time * Fin 1000) a
             (fold (seekAnimation (labels t) (time * Fin 1000)) xs w))) \<and>
     tl_duration (calculateDuration t) =
       fold durationStep ys
         (js_max (fold durationStep xs (Fin 0))
            (fold durationStep xs (Fin 0) + orZero (duration (options a))))"
proof -
  have p: "processAnimations u w =
       fold (processAnimation (currentTime u)) ys
         (frameCallFromZero (currentTime u) a
            (fold (processAnimation (currentTime u)) xs w))"
    if "animations u = xs @ a # ys" for u :: "'a Timeline"
    using that assms(2) by (simp add: processAnimations_def processAnimation_unresolved)
  have r: "runAnimations time fid (t, w) =
       (let t2 = frameTimeline time t;
            r = handleTimelineCompletion time
                  (t2, handleTimelineUpdate t2
                     (fold (processAnimation (currentTime t2)) ys
                        (frameCallFromZero (currentTime t2) a
                           (fold (processAnimation (currentTime t2)) xs w))))
        in (requestNextFrame fid (fst r), snd r))"
    unfolding runAnimations_frameTimeline Let_def
    using p [of "frameTimeline time t"] assms(1) by simp
  have s: "seek time (t, w) =
       (t\<lparr>currentTime := time * Fin 1000\<rparr>,
        fold (seekAnimation (labels t) (time * Fin 1000)) ys
          (seekCallFromZero (time * Fin 1000) a
             (fold (seekAnimation (labels t) (time * Fin 1000)) xs w)))"
    using assms by (simp add: seek_def seekAnimation_unresolved)
  have d: "tl_duration (calculateDuration t) =
       fold durationStep ys
         (js_max (fold durationStep xs (Fin 0))
            (fold durationStep xs (Fin 0) + orZero (duration (options a))))"
    using assms by (simp add: calculateDuration_def durationStep_unresolved)
  show ?thesis
    using p [OF assms(1)] r s d by blast
qed


text \<open>
  On the example timeline with a third tween added at a label that does not exist:
  the duration is 3000, so the tween counts from 2000 to 3000; the frame at the
  playhead 500 and \<open>seek(2.5)\<close> run it as the window from 0 to 1000.
\<close>

theorem C9_unresolved_entry_witness:
  "position (last (animations unresolvedTimeline)) = PUndefined \<and>
   tl_duration (calculateDuration unresolvedTimeline) = Fin 3000 \<and>
   setCalls (processAnimations (unresolvedTimeline\<lparr>currentTime := Fin 500\<rparr>) exampleWorld)
     = [(0, ''left'', VNum (Fin 55)), (0, ''left'', VNum (Fin 5))] \<and>
   setCalls (snd (runAnimations (Fin 600) 3
       (play PUndefined (Fin 100) 2 unresolvedTimeline, exampleWorld)))
     = [(0, ''left'', VNum (Fin 55)), (0, ''left'', VNum (Fin 5))] \<and>
   setCalls (snd (seek (Fin (5 / 2)) (unresolvedTimeline, exampleWorld)))
     = [(0, ''left'', VNum (Fin 100)), (0, ''top'', VNum (Fin 50)),
        (0, ''left'', VNum (Fin 0))]"
proof -
  define a :: "world animation" where "a =
     \<lparr>options = \<lparr>duration = Some (Fin 1000), easing = Some linearEasing, endValue = None,
          onChange = Some (to_onChange 0 [(''left'', VNum (Fin 10))]
                             [(''left'', Some (Fin 0))] linearEasing (Some (Fin 1000))),
          onComplete = Some (\<lambda>w. w), startValue = None\<rparr>, position = PUndefined\<rparr>"
  define xs where "xs = animations exampleTimeline"
  have an: "animations unresolvedTimeline = xs @ a # []"
    by (simp add: unresolvedTimeline_animations a_def xs_def)
  have pa: "position a = PUndefined"
    by (simp add: a_def)
  have da: "duration (options a) = Some (Fin 1000)"
    by (simp add: a_def)
  have ev: "setCalls w = [] \<Longrightarrow>
      setCalls (frameCallFromZero (Fin 500) a (fold (processAnimation (Fin 500)) xs w))
        = [(0, ''left'', VNum (Fin 55)), (0, ''left'', VNum (Fin 5))]" for w
    by (simp add: xs_def exampleTimeline_animations processAnimation_def
        resolveAnimationStartTime_def frameCallFromZero_def a_def orZero_def or0_def
        truthy_def call1_def to_onChange_example object_set_def)
  have c1: "position (last (animations unresolvedTimeline)) = PUndefined"
    by (simp add: an pa)
  have c2: "tl_duration (calculateDuration unresolvedTimeline) = Fin 3000"
    using C9_unresolved_entry [OF an pa]
    by (simp add: da xs_def exampleTimeline_animations durationStep_def orZero_def or0_def
        truthy_def)
  have c3: "setCalls (processAnimations (unresolvedTimeline\<lparr>currentTime := Fin 500\<rparr>)
       exampleWorld) = [(0, ''left'', VNum (Fin 55)), (0, ''left'', VNum (Fin 5))]"
    using C9_unresolved_entry [of "unresolvedTimeline\<lparr>currentTime := Fin 500\<rparr>" xs a "[]"]
      an pa ev [of exampleWorld]
    by (simp add: exampleWorld_def)
  have pl: "play PUndefined (Fin 100) 2 unresolvedTimeline =
     unresolvedTimeline\<lparr>isPlayingInternal := True, isPausedInternal := False,
        playDirection := Forward, startTime := Some (Fin 100), animationFrameId := Some 2\<rparr>"
    by (simp add: play_def isPlaying_def unresolvedTimeline_fields Let_def)
  have ft: "frameTimeline (Fin 600) (play PUndefined (Fin 100) 2 unresolvedTimeline) =
     unresolvedTimeline\<lparr>isPlayingInternal := True, isPausedInternal := False,
        playDirection := Forward, startTime := Some (Fin 100), animationFrameId := Some 2,
        currentTime := Fin 500\<rparr>"
    by (simp add: pl frameTimeline_def calculateCurrentTime_def unresolvedTimeline_fields
        truthy_def nullishZero_def Let_def)
  have c4: "setCalls (snd (runAnimations (Fin 600) 3
       (play PUndefined (Fin 100) 2 unresolvedTimeline, exampleWorld)))
     = [(0, ''left'', VNum (Fin 55)), (0, ''left'', VNum (Fin 5))]"
    using C9_unresolved_entry [of "play PUndefined (Fin 100) 2 unresolvedTimeline" xs a "[]"]
      an pa ev [of exampleWorld]
    by (simp add: ft Let_def handleTimelineCompletion_def handleTimelineUpdate_def call0_def
        unresolvedTimeline_fields unresolvedTimeline_more exampleWorld_def)
  have c5: "setCalls (snd (seek (Fin (5 / 2)) (unresolvedTimeline, exampleWorld)))
     = [(0, ''left'', VNum (Fin 100)), (0, ''top'', VNum (Fin 50)),
        (0, ''left'', VNum (Fin 0))]"
    using C9_unresolved_entry [OF an pa, of exampleWorld]
    by (simp add: xs_def exampleTimeline_animations seekAnimation_def seekAnimationStart_def
        seekCallFromZero_def a_def nullishZero_def call1_def to_onChange_example
        object_set_def exampleWorld_def Let_def)
  show ?thesis
    using c1 c2 c3 c4 c5 by blast
qed

subsection \<open>C10: positions are resolved at insertion\<close>






end
